theory Spec2Isabelle
  imports Main "HOL-Library.Word" "HOL-Library.Sublist"
begin

section \<open>Storage abstraction and hash engine of sphaira: a shallow embedding\<close>

text \<open>
  The development follows \<^verbatim>\<open>source/fs.cpp\<close> and \<^verbatim>\<open>source/hasher.cpp\<close>.
  Paths are C strings: a \<^typ>\<open>string\<close> holds the characters before the terminating NUL.
  Everything the code asks of libnx, newlib or the kernel (a service call, a system call,
  a stdio call) is a field of an environment record acting on a world state \<open>'w\<close>; the
  code of the repository is modelled on top of it by explicit state passing.
\<close>

subsection \<open>Machine types and result codes\<close>

type_synonym u8 = "8 word"
type_synonym u32 = "32 word"
type_synonym u64 = "64 word"
type_synonym s64 = "64 word"

text \<open>
  \<^verbatim>\<open>Result\<close> is a 32-bit code with 0 for success. The codes the modelled functions
  name are constructors; every other code a service can report is \<open>Result_Other\<close>.
\<close>

datatype Result =
    Success
  | FsError_PathAlreadyExists
  | Result_FsReadOnly
  | Result_FsNotActive
  | Result_FsUnknownStdioError
  | Result_TransferCancelled
  | Result_Other nat

definition R_SUCCEEDED :: "Result \<Rightarrow> bool" where
  "R_SUCCEEDED rc = (rc = Success)"

definition R_FAILED :: "Result \<Rightarrow> bool" where
  "R_FAILED rc = (rc \<noteq> Success)"

text \<open>
  Modelled from the spec: \<^verbatim>\<open>FsPath\<close> is declared in a header that is not among the sources;
  it is "a fixed-capacity, null-terminated string value". The capacity is that of libnx,
  \<^verbatim>\<open>#define FS_MAX_PATH 0x301\<close>: a path value has at most \<open>FS_MAX_PATH - 1\<close> characters
  before its NUL.
\<close>

definition FS_MAX_PATH :: nat where
  "FS_MAX_PATH = 0x301"

text \<open>\<^verbatim>\<open>snprintf(buf, cap, "%s", str)\<close>: at most \<open>cap - 1\<close> characters are stored, then NUL.\<close>

definition snprintf_s :: "nat \<Rightarrow> string \<Rightarrow> string" where
  "snprintf_s cap str = take (cap - 1) str"

text \<open>
  \<^verbatim>\<open>strcat\<close> and \<^verbatim>\<open>strncat\<close> into a buffer of \<open>cap\<close> bytes: the code does not check the
  room left; writing past the buffer is undefined behaviour, \<open>None\<close> here.
\<close>

definition strcat_buf :: "nat \<Rightarrow> string \<Rightarrow> string \<Rightarrow> string option" where
  "strcat_buf cap buf str = (if length buf + length str < cap then Some (buf @ str) else None)"

subsection \<open>PathPolicy: the deny-lists and their predicates\<close>

definition READONLY_ROOT_FOLDERS :: "string list" where
  "READONLY_ROOT_FOLDERS =
    [''/atmosphere/automatic_backups'',
     ''/bootloader/res'',
     ''/bootloader/sys'',
     ''/backup'',
     ''/Nintendo'',
     ''/Nintendo/Contents'',
     ''/Nintendo/save'',
     ''/emuMMC'',
     ''/warmboot_mariko'']"

definition READONLY_FILES :: "string list" where
  "READONLY_FILES =
    [''/'',
     ''/atmosphere'',
     ''/atmosphere/hbl.nsp'',
     ''/atmosphere/package3'',
     ''/atmosphere/reboot_payload.bin'',
     ''/atmosphere/stratosphere.romfs'',
     ''/bootloader'',
     ''/bootloader/hekate_ipl.ini'',
     ''/switch'',
     ''/hbmenu.nro'',
     ''/payload.bin'',
     ''/boot.dat'',
     ''/license.dat'',
     ''/switch/prod.keys'',
     ''/switch/title.keys'',
     ''/switch/reboot_to_payload.nro'']"

text \<open>\<^verbatim>\<open>std::string_view::starts_with\<close>, character by character.\<close>

fun starts_with :: "string \<Rightarrow> string \<Rightarrow> bool" where
  "starts_with s [] = True"
| "starts_with [] (p # ps) = False"
| "starts_with (c # cs) (p # ps) = (c = p \<and> starts_with cs ps)"

text \<open>The two \<^verbatim>\<open>for (auto p : TABLE)\<close> loops, returning at the first hit.\<close>

fun root_loop :: "string list \<Rightarrow> string \<Rightarrow> bool" where
  "root_loop [] path = False"
| "root_loop (p # ps) path = (if starts_with path p then True else root_loop ps path)"

fun file_loop :: "string list \<Rightarrow> string \<Rightarrow> bool" where
  "file_loop [] path = False"
| "file_loop (p # ps) path = (if path = p then True else file_loop ps path)"

definition is_read_only_root :: "string \<Rightarrow> bool" where
  "is_read_only_root path = root_loop READONLY_ROOT_FOLDERS path"

definition is_read_only_file :: "string \<Rightarrow> bool" where
  "is_read_only_file path = file_loop READONLY_FILES path"

definition is_read_only :: "string \<Rightarrow> bool" where
  "is_read_only path =
    (if is_read_only_root path then True
     else if is_read_only_file path then True
     else False)"

subsection \<open>AppendPath\<close>

text \<open>\<^verbatim>\<open>while (file_path[0] == '/') file_path++;\<close> stops at the first other character or at NUL.\<close>

fun strip_leading_slashes :: "string \<Rightarrow> string" where
  "strip_leading_slashes [] = []"
| "strip_leading_slashes (c # cs) =
     (if c = CHR ''/'' then strip_leading_slashes cs else c # cs)"

definition AppendPath :: "string \<Rightarrow> string \<Rightarrow> string" where
  "AppendPath root_path file_path0 =
    (let file_path = strip_leading_slashes file_path0;
         root_len = length root_path
     in if root_len = 0 then snprintf_s FS_MAX_PATH file_path
        else if root_path ! (root_len - 1) \<noteq> CHR ''/''
          then snprintf_s FS_MAX_PATH (root_path @ ''/'' @ file_path)
        else snprintf_s FS_MAX_PATH (root_path @ file_path))"

subsection \<open>The environment: libnx services and newlib calls\<close>

text \<open>
  An \<^verbatim>\<open>FsFileSystem*\<close>, an \<^verbatim>\<open>FsFile\<close> session, a \<^verbatim>\<open>FILE*\<close> and a \<^verbatim>\<open>DIR*\<close> are
  natural numbers, 0 being the null pointer (the inactive session). Every call takes the
  world and returns the world it leaves.
\<close>

record 'w nx_env =
  fsFsCreateFile :: "nat \<Rightarrow> string \<Rightarrow> u64 \<Rightarrow> u32 \<Rightarrow> 'w \<Rightarrow> Result \<times> 'w"
  fsFsCommit :: "nat \<Rightarrow> 'w \<Rightarrow> Result \<times> 'w"
  fsFsCreateDirectory :: "nat \<Rightarrow> string \<Rightarrow> 'w \<Rightarrow> Result \<times> 'w"
  fsFsDeleteFile :: "nat \<Rightarrow> string \<Rightarrow> 'w \<Rightarrow> Result \<times> 'w"
  fsFsDeleteDirectory :: "nat \<Rightarrow> string \<Rightarrow> 'w \<Rightarrow> Result \<times> 'w"
  fsFsDeleteDirectoryRecursively :: "nat \<Rightarrow> string \<Rightarrow> 'w \<Rightarrow> Result \<times> 'w"
  fsFsRenameFile :: "nat \<Rightarrow> string \<Rightarrow> string \<Rightarrow> 'w \<Rightarrow> Result \<times> 'w"
  fsFsRenameDirectory :: "nat \<Rightarrow> string \<Rightarrow> string \<Rightarrow> 'w \<Rightarrow> Result \<times> 'w"
  fsFsOpenFile :: "nat \<Rightarrow> string \<Rightarrow> u32 \<Rightarrow> 'w \<Rightarrow> Result \<times> nat \<times> 'w"
  fsFileRead :: "nat \<Rightarrow> s64 \<Rightarrow> u64 \<Rightarrow> u32 \<Rightarrow> 'w \<Rightarrow> Result \<times> u8 list \<times> 'w"
  fsFileWrite :: "nat \<Rightarrow> s64 \<Rightarrow> u8 list \<Rightarrow> u32 \<Rightarrow> 'w \<Rightarrow> Result \<times> 'w"
  fsFileSetSize :: "nat \<Rightarrow> s64 \<Rightarrow> 'w \<Rightarrow> Result \<times> 'w"
  fsFileGetSize :: "nat \<Rightarrow> 'w \<Rightarrow> Result \<times> s64 \<times> 'w"
  fsFileClose :: "nat \<Rightarrow> 'w \<Rightarrow> 'w"

text \<open>\<^verbatim>\<open>struct stat\<close> (the mode only) and \<^verbatim>\<open>struct dirent\<close>.\<close>

record dirent =
  d_name :: string
  d_type :: u8

record 'w posix_env =
  c_open :: "string \<Rightarrow> u32 \<Rightarrow> u32 \<Rightarrow> 'w \<Rightarrow> int \<times> 'w"
  c_close :: "int \<Rightarrow> 'w \<Rightarrow> 'w"
  c_ftruncate :: "int \<Rightarrow> u64 \<Rightarrow> 'w \<Rightarrow> int \<times> 'w"
  c_mkdir :: "string \<Rightarrow> u32 \<Rightarrow> 'w \<Rightarrow> int \<times> 'w"
  c_unlink :: "string \<Rightarrow> 'w \<Rightarrow> int \<times> 'w"
  c_rmdir :: "string \<Rightarrow> 'w \<Rightarrow> int \<times> 'w"
  c_rename :: "string \<Rightarrow> string \<Rightarrow> 'w \<Rightarrow> int \<times> 'w"
  c_errno :: "'w \<Rightarrow> int"
  fsdevGetLastResult :: "'w \<Rightarrow> Result"
  c_lstat :: "string \<Rightarrow> 'w \<Rightarrow> int \<times> u32 \<times> 'w"
  c_opendir :: "string \<Rightarrow> 'w \<Rightarrow> nat \<times> 'w"
  c_readdir :: "nat \<Rightarrow> 'w \<Rightarrow> dirent option \<times> 'w"
  c_closedir :: "nat \<Rightarrow> 'w \<Rightarrow> 'w"

record 'w stdio_env =
  c_fopen :: "string \<Rightarrow> string \<Rightarrow> 'w \<Rightarrow> nat \<times> 'w"
  c_fclose :: "nat \<Rightarrow> 'w \<Rightarrow> 'w"
  c_fseek :: "nat \<Rightarrow> s64 \<Rightarrow> int \<Rightarrow> 'w \<Rightarrow> int \<times> 'w"
  c_ftell :: "nat \<Rightarrow> 'w \<Rightarrow> int \<times> 'w"
  c_rewind :: "nat \<Rightarrow> 'w \<Rightarrow> 'w"
  c_fread :: "nat \<Rightarrow> u64 \<Rightarrow> 'w \<Rightarrow> u8 list \<times> 'w"
  c_fwrite :: "nat \<Rightarrow> u8 list \<Rightarrow> 'w \<Rightarrow> nat \<times> 'w"
  c_ferror :: "nat \<Rightarrow> 'w \<Rightarrow> bool"
  c_feof :: "nat \<Rightarrow> 'w \<Rightarrow> bool"
  c_fileno :: "nat \<Rightarrow> 'w \<Rightarrow> int"
  c_fstat_size :: "int \<Rightarrow> 'w \<Rightarrow> int \<times> s64"

record 'w env =
  nx :: "'w nx_env"
  px :: "'w posix_env"
  io :: "'w stdio_env"

text \<open>Constants of newlib and libnx that the code passes on.\<close>

definition EEXIST :: int where "EEXIST = 17"
definition O_WRONLY :: u32 where "O_WRONLY = 0x0001"
definition O_CREAT :: u32 where "O_CREAT = 0x0200"
definition O_EXCL :: u32 where "O_EXCL = 0x0800"
definition DEFFILEMODE :: u32 where "DEFFILEMODE = 0x1B6"
definition ACCESSPERMS :: u32 where "ACCESSPERMS = 0x1FF"
definition SEEK_SET :: int where "SEEK_SET = 0"
definition SEEK_END :: int where "SEEK_END = 2"
definition S_IFMT :: u32 where "S_IFMT = 0xF000"
definition S_IFDIR :: u32 where "S_IFDIR = 0x4000"
definition DT_UNKNOWN :: u8 where "DT_UNKNOWN = 0"
definition DT_DIR :: u8 where "DT_DIR = 4"
definition DT_REG :: u8 where "DT_REG = 8"
definition DT_LNK :: u8 where "DT_LNK = 10"
definition FsCreateOption_BigFile :: u32 where "FsCreateOption_BigFile = 1"
definition FsOpenMode_Read :: u32 where "FsOpenMode_Read = 1"
definition FsOpenMode_Write :: u32 where "FsOpenMode_Write = 2"
definition FsDirOpenMode_ReadDirs :: u32 where "FsDirOpenMode_ReadDirs = 1"
definition FsDirOpenMode_ReadFiles :: u32 where "FsDirOpenMode_ReadFiles = 2"

definition S_ISDIR :: "u32 \<Rightarrow> bool" where
  "S_ISDIR m = (and m S_IFMT = S_IFDIR)"

text \<open>
  The two lines \<^verbatim>\<open>R_TRY(fsdevGetLastResult()); return Result_FsUnknownStdioError;\<close>
  that end every failing branch of the stdio functions.
\<close>

definition stdio_failure :: "'w env \<Rightarrow> 'w \<Rightarrow> Result" where
  "stdio_failure e s =
    (let rc = fsdevGetLastResult (px e) s
     in if R_FAILED rc then rc else Result_FsUnknownStdioError)"

text \<open>
  The three statements \<^verbatim>\<open>R_TRY(call); fsFsCommit(fs); R_SUCCEED();\<close> that end the native
  functions, applied to what the call returned.
\<close>

definition commit_after :: "'w env \<Rightarrow> nat \<Rightarrow> Result \<times> 'w \<Rightarrow> Result \<times> 'w" where
  "commit_after e fs r =
    (case r of
       (rc, s1) \<Rightarrow>
         if R_FAILED rc then (rc, s1) else (Success, snd (fsFsCommit (nx e) fs s1)))"

text \<open>
  The statement \<^verbatim>\<open>if (call) { R_TRY(fsdevGetLastResult()); return Result_FsUnknownStdioError; }\<close>
  followed by \<^verbatim>\<open>R_SUCCEED();\<close>, applied to what the call returned.
\<close>

definition stdio_result :: "'w env \<Rightarrow> int \<times> 'w \<Rightarrow> Result \<times> 'w" where
  "stdio_result e r =
    (case r of (v, s1) \<Rightarrow> if v \<noteq> 0 then (stdio_failure e s1, s1) else (Success, s1))"

subsection \<open>Path-level operations through the native service\<close>

definition CreateFile_native ::
  "'w env \<Rightarrow> nat \<Rightarrow> string \<Rightarrow> u64 \<Rightarrow> u32 \<Rightarrow> bool \<Rightarrow> 'w \<Rightarrow> Result \<times> 'w" where
  "CreateFile_native e fs path sz option0 ignore_read_only s =
    (if \<not> (ignore_read_only \<or> \<not> is_read_only_root path) then (Result_FsReadOnly, s)
     else
       let opt = (if sz \<ge> 4 * 1024 * 1024 * 1024
                  then or option0 FsCreateOption_BigFile else option0)
       in commit_after e fs (fsFsCreateFile (nx e) fs path sz opt s))"

definition CreateDirectory_native ::
  "'w env \<Rightarrow> nat \<Rightarrow> string \<Rightarrow> bool \<Rightarrow> 'w \<Rightarrow> Result \<times> 'w" where
  "CreateDirectory_native e fs path ignore_read_only s =
    (if \<not> (ignore_read_only \<or> \<not> is_read_only_root path) then (Result_FsReadOnly, s)
     else commit_after e fs (fsFsCreateDirectory (nx e) fs path s))"

definition DeleteFile_native ::
  "'w env \<Rightarrow> nat \<Rightarrow> string \<Rightarrow> bool \<Rightarrow> 'w \<Rightarrow> Result \<times> 'w" where
  "DeleteFile_native e fs path ignore_read_only s =
    (if \<not> (ignore_read_only \<or> \<not> is_read_only path) then (Result_FsReadOnly, s)
     else commit_after e fs (fsFsDeleteFile (nx e) fs path s))"

definition DeleteDirectory_native ::
  "'w env \<Rightarrow> nat \<Rightarrow> string \<Rightarrow> bool \<Rightarrow> 'w \<Rightarrow> Result \<times> 'w" where
  "DeleteDirectory_native e fs path ignore_read_only s =
    (if \<not> (ignore_read_only \<or> \<not> is_read_only path) then (Result_FsReadOnly, s)
     else commit_after e fs (fsFsDeleteDirectory (nx e) fs path s))"

definition DeleteDirectoryRecursively_native ::
  "'w env \<Rightarrow> nat \<Rightarrow> string \<Rightarrow> bool \<Rightarrow> 'w \<Rightarrow> Result \<times> 'w" where
  "DeleteDirectoryRecursively_native e fs path ignore_read_only s =
    (if \<not> (ignore_read_only \<or> \<not> is_read_only path) then (Result_FsReadOnly, s)
     else commit_after e fs (fsFsDeleteDirectoryRecursively (nx e) fs path s))"

definition RenameFile_native ::
  "'w env \<Rightarrow> nat \<Rightarrow> string \<Rightarrow> string \<Rightarrow> bool \<Rightarrow> 'w \<Rightarrow> Result \<times> 'w" where
  "RenameFile_native e fs src dst ignore_read_only s =
    (if \<not> (ignore_read_only \<or> \<not> is_read_only src) then (Result_FsReadOnly, s)
     else if \<not> (ignore_read_only \<or> \<not> is_read_only dst) then (Result_FsReadOnly, s)
     else commit_after e fs (fsFsRenameFile (nx e) fs src dst s))"

definition RenameDirectory_native ::
  "'w env \<Rightarrow> nat \<Rightarrow> string \<Rightarrow> string \<Rightarrow> bool \<Rightarrow> 'w \<Rightarrow> Result \<times> 'w" where
  "RenameDirectory_native e fs src dst ignore_read_only s =
    (if \<not> (ignore_read_only \<or> \<not> is_read_only src) then (Result_FsReadOnly, s)
     else if \<not> (ignore_read_only \<or> \<not> is_read_only dst) then (Result_FsReadOnly, s)
     else commit_after e fs (fsFsRenameDirectory (nx e) fs src dst s))"

subsection \<open>Path-level operations through the POSIX layer\<close>

definition CreateFile_stdio ::
  "'w env \<Rightarrow> string \<Rightarrow> u64 \<Rightarrow> u32 \<Rightarrow> bool \<Rightarrow> 'w \<Rightarrow> Result \<times> 'w" where
  "CreateFile_stdio e path sz opt ignore_read_only s =
    (if \<not> (ignore_read_only \<or> \<not> is_read_only_root path) then (Result_FsReadOnly, s)
     else case c_open (px e) path (or O_WRONLY O_CREAT) DEFFILEMODE s of
            (fd, s1) \<Rightarrow>
              if fd = - 1 then
                (if c_errno (px e) s1 = EEXIST then (FsError_PathAlreadyExists, s1)
                 else (stdio_failure e s1, s1))
              else if sz \<noteq> 0 then
                (case c_ftruncate (px e) fd sz s1 of
                   (r, s2) \<Rightarrow>
                     if \<not> (r = 0) then (Result_FsUnknownStdioError, c_close (px e) fd s2)
                     else (Success, c_close (px e) fd s2))
              else (Success, c_close (px e) fd s1))"

definition CreateDirectory_stdio ::
  "'w env \<Rightarrow> string \<Rightarrow> bool \<Rightarrow> 'w \<Rightarrow> Result \<times> 'w" where
  "CreateDirectory_stdio e path ignore_read_only s =
    (if \<not> (ignore_read_only \<or> \<not> is_read_only_root path) then (Result_FsReadOnly, s)
     else case c_mkdir (px e) path ACCESSPERMS s of
            (r, s1) \<Rightarrow>
              if r \<noteq> 0 then
                (if c_errno (px e) s1 = EEXIST then (FsError_PathAlreadyExists, s1)
                 else (stdio_failure e s1, s1))
              else (Success, s1))"

definition DeleteFile_stdio ::
  "'w env \<Rightarrow> string \<Rightarrow> bool \<Rightarrow> 'w \<Rightarrow> Result \<times> 'w" where
  "DeleteFile_stdio e path ignore_read_only s =
    (if \<not> (ignore_read_only \<or> \<not> is_read_only path) then (Result_FsReadOnly, s)
     else stdio_result e (c_unlink (px e) path s))"

definition DeleteDirectory_stdio ::
  "'w env \<Rightarrow> string \<Rightarrow> bool \<Rightarrow> 'w \<Rightarrow> Result \<times> 'w" where
  "DeleteDirectory_stdio e path ignore_read_only s =
    (if \<not> (ignore_read_only \<or> \<not> is_read_only path) then (Result_FsReadOnly, s)
     else stdio_result e (c_rmdir (px e) path s))"

definition RenameFile_stdio ::
  "'w env \<Rightarrow> string \<Rightarrow> string \<Rightarrow> bool \<Rightarrow> 'w \<Rightarrow> Result \<times> 'w" where
  "RenameFile_stdio e src dst ignore_read_only s =
    (if \<not> (ignore_read_only \<or> \<not> is_read_only src) then (Result_FsReadOnly, s)
     else if \<not> (ignore_read_only \<or> \<not> is_read_only dst) then (Result_FsReadOnly, s)
     else stdio_result e (c_rename (px e) src dst s))"

definition RenameDirectory_stdio ::
  "'w env \<Rightarrow> string \<Rightarrow> string \<Rightarrow> bool \<Rightarrow> 'w \<Rightarrow> Result \<times> 'w" where
  "RenameDirectory_stdio e src dst ignore_read_only s =
    (if \<not> (ignore_read_only \<or> \<not> is_read_only src) then (Result_FsReadOnly, s)
     else if \<not> (ignore_read_only \<or> \<not> is_read_only dst) then (Result_FsReadOnly, s)
     else RenameFile_stdio e src dst ignore_read_only s)"

subsection \<open>Recursive directory creation\<close>

text \<open>\<^verbatim>\<open>strchr\<close> and \<^verbatim>\<open>strrchr\<close>: the index of the first (last) occurrence, if any.\<close>

fun strchr :: "string \<Rightarrow> char \<Rightarrow> nat option" where
  "strchr [] c = None"
| "strchr (x # xs) c = (if x = c then Some 0 else map_option Suc (strchr xs c))"

definition strrchr :: "string \<Rightarrow> char \<Rightarrow> nat option" where
  "strrchr str c =
    (case strchr (rev str) c of None \<Rightarrow> None | Some i \<Rightarrow> Some (length str - 1 - i))"

text \<open>
  \<^verbatim>\<open>std::views::split(path_view, '/')\<close>: the pieces between separators, empty ones
  included. (For an empty view the library yields no piece and this function one empty
  piece; the loop skips empty pieces, so it runs the same.)
\<close>

fun split_view :: "char \<Rightarrow> string \<Rightarrow> string list" where
  "split_view c [] = [[]]"
| "split_view c (x # xs) =
     (if x = c then [] # split_view c xs
      else (case split_view c xs of [] \<Rightarrow> [[x]] | y # ys \<Rightarrow> (x # y) # ys))"

text \<open>The statement \<^verbatim>\<open>if (fs) rc = CreateDirectory(fs, p, ..); else rc = CreateDirectory(p, ..);\<close>.\<close>

definition CreateDirectory_on ::
  "'w env \<Rightarrow> nat \<Rightarrow> string \<Rightarrow> bool \<Rightarrow> 'w \<Rightarrow> Result \<times> 'w" where
  "CreateDirectory_on e fs path ignore_read_only s =
    (if fs \<noteq> 0 then CreateDirectory_native e fs path ignore_read_only s
     else CreateDirectory_stdio e path ignore_read_only s)"

text \<open>
  The \<^verbatim>\<open>for\<close> loop over the pieces. \<open>path\<close> is the buffer built so far; \<open>None\<close> is a
  write past the end of that buffer.
\<close>

fun CreateDirectoryRecursively_loop ::
  "'w env \<Rightarrow> nat \<Rightarrow> bool \<Rightarrow> string list \<Rightarrow> string \<Rightarrow> 'w \<Rightarrow> (Result \<times> 'w) option" where
  "CreateDirectoryRecursively_loop e fs ignore_read_only [] path s = Some (Success, s)"
| "CreateDirectoryRecursively_loop e fs ignore_read_only (dir # dirs) path s =
     (if dir = [] then CreateDirectoryRecursively_loop e fs ignore_read_only dirs path s
      else case strcat_buf FS_MAX_PATH path dir of
             None \<Rightarrow> None
           | Some path1 \<Rightarrow>
               (case CreateDirectory_on e fs path1 ignore_read_only s of
                  (rc, s1) \<Rightarrow>
                    if R_FAILED rc \<and> rc \<noteq> FsError_PathAlreadyExists then Some (rc, s1)
                    else (case strcat_buf FS_MAX_PATH path1 ''/'' of
                            None \<Rightarrow> None
                          | Some path2 \<Rightarrow>
                              CreateDirectoryRecursively_loop e fs ignore_read_only dirs path2 s1)))"

text \<open>The root marker and the rest of the path: \<^verbatim>\<open>"/"\<close>, or everything up to the first colon.\<close>

definition root_marker :: "string \<Rightarrow> string \<times> string" where
  "root_marker path0 =
    (case strchr path0 CHR '':'' of
       None \<Rightarrow> (''/'', path0)
     | Some i \<Rightarrow>
         (let len = i + 1
          in (snprintf_s FS_MAX_PATH (take len path0 @ ''/''), drop len path0)))"

definition CreateDirectoryRecursively_native ::
  "'w env \<Rightarrow> nat \<Rightarrow> string \<Rightarrow> bool \<Rightarrow> 'w \<Rightarrow> (Result \<times> 'w) option" where
  "CreateDirectoryRecursively_native e fs path0 ignore_read_only s =
    (if \<not> (ignore_read_only \<or> \<not> is_read_only_root path0) then Some (Result_FsReadOnly, s)
     else case CreateDirectory_on e fs path0 ignore_read_only s of
            (rc, s1) \<Rightarrow>
              if R_SUCCEEDED rc \<or> rc = FsError_PathAlreadyExists then Some (Success, s1)
              else (case root_marker path0 of
                      (path, path_view) \<Rightarrow>
                        CreateDirectoryRecursively_loop e fs ignore_read_only
                          (split_view CHR ''/'' path_view) path s1))"

definition CreateDirectoryRecursivelyWithPath_native ::
  "'w env \<Rightarrow> nat \<Rightarrow> string \<Rightarrow> bool \<Rightarrow> 'w \<Rightarrow> (Result \<times> 'w) option" where
  "CreateDirectoryRecursivelyWithPath_native e fs path0 ignore_read_only s =
    (if \<not> (ignore_read_only \<or> \<not> is_read_only_root path0) then Some (Result_FsReadOnly, s)
     else case strrchr path0 CHR ''/'' of
            None \<Rightarrow> Some (Success, s)
          | Some last_slash \<Rightarrow>
              (let new_path = snprintf_s FS_MAX_PATH (take last_slash path0)
               in case CreateDirectoryRecursively_native e fs new_path ignore_read_only s of
                    None \<Rightarrow> None
                  | Some (rc, s1) \<Rightarrow> if R_FAILED rc then Some (rc, s1) else Some (Success, s1)))"

definition CreateDirectoryRecursively_stdio ::
  "'w env \<Rightarrow> string \<Rightarrow> bool \<Rightarrow> 'w \<Rightarrow> (Result \<times> 'w) option" where
  "CreateDirectoryRecursively_stdio e path ignore_read_only s =
    (if \<not> (ignore_read_only \<or> \<not> is_read_only_root path) then Some (Result_FsReadOnly, s)
     else CreateDirectoryRecursively_native e 0 path ignore_read_only s)"

definition CreateDirectoryRecursivelyWithPath_stdio ::
  "'w env \<Rightarrow> string \<Rightarrow> bool \<Rightarrow> 'w \<Rightarrow> (Result \<times> 'w) option" where
  "CreateDirectoryRecursivelyWithPath_stdio e path ignore_read_only s =
    (if \<not> (ignore_read_only \<or> \<not> is_read_only_root path) then Some (Result_FsReadOnly, s)
     else CreateDirectoryRecursivelyWithPath_native e 0 path ignore_read_only s)"

subsection \<open>Recursive removal on the POSIX layer\<close>

text \<open>
  \<^verbatim>\<open>remove_dir_recursive_impl\<close> recurses over a directory tree that lives in the world;
  the first argument bounds the number of calls and loop rounds, and \<open>None\<close> is a run
  that needs more. The loop condition calls \<^verbatim>\<open>readdir\<close> before it looks at \<open>result\<close>.
  \<^verbatim>\<open>child.back()\<close> on an empty \<open>path\<close> is not defined in C++; the separator is added there.
\<close>

fun remove_dir_recursive_impl ::
    "nat \<Rightarrow> 'w env \<Rightarrow> string \<Rightarrow> 'w \<Rightarrow> (int \<times> 'w) option"
  and remove_dir_loop ::
    "nat \<Rightarrow> 'w env \<Rightarrow> string \<Rightarrow> nat \<Rightarrow> int \<Rightarrow> 'w \<Rightarrow> (int \<times> 'w) option" where
  "remove_dir_recursive_impl 0 e path s = None"
| "remove_dir_recursive_impl (Suc n) e path s =
     (case c_lstat (px e) path s of
        (r, mode, s1) \<Rightarrow>
          if r \<noteq> 0 then Some (- 1, s1)
          else if \<not> S_ISDIR mode then
            (case c_unlink (px e) path s1 of
               (u, s2) \<Rightarrow> if u \<noteq> 0 then Some (- 1, s2) else Some (0, s2))
          else (case c_opendir (px e) path s1 of
                  (dir, s2) \<Rightarrow>
                    if dir = 0 then Some (- 1, s2)
                    else (case remove_dir_loop n e path dir 0 s2 of
                            None \<Rightarrow> None
                          | Some (result, s3) \<Rightarrow>
                              (let s4 = c_closedir (px e) dir s3
                               in if result = 0 then
                                    (case c_rmdir (px e) path s4 of
                                       (r2, s5) \<Rightarrow> Some (if r2 \<noteq> 0 then - 1 else 0, s5))
                                  else Some (result, s4)))))"
| "remove_dir_loop 0 e path dir result s = None"
| "remove_dir_loop (Suc n) e path dir result s =
     (case c_readdir (px e) dir s of
        (None, s1) \<Rightarrow> Some (result, s1)
      | (Some entry, s1) \<Rightarrow>
          if result \<noteq> 0 then Some (result, s1)
          else if d_name entry = ''.'' \<or> d_name entry = ''..'' then
            remove_dir_loop n e path dir result s1
          else
            (let child = (if path \<noteq> [] \<and> last path = CHR ''/'' then path else path @ ''/'')
                           @ d_name entry;
                 probe = (if d_type entry = DT_DIR then (True, s1)
                          else if d_type entry = DT_UNKNOWN \<or> d_type entry = DT_LNK then
                            (case c_lstat (px e) child s1 of
                               (r, mode, s2) \<Rightarrow> (r = 0 \<and> S_ISDIR mode, s2))
                          else (False, s1))
             in case probe of
                  (is_dir, s2) \<Rightarrow>
                    if is_dir then
                      (case remove_dir_recursive_impl n e child s2 of
                         None \<Rightarrow> None
                       | Some (r, s3) \<Rightarrow> remove_dir_loop n e path dir r s3)
                    else
                      (case c_unlink (px e) child s2 of
                         (u, s3) \<Rightarrow>
                           remove_dir_loop n e path dir (if u \<noteq> 0 then - 1 else result) s3)))"

definition DeleteDirectoryRecursively_stdio ::
  "nat \<Rightarrow> 'w env \<Rightarrow> string \<Rightarrow> bool \<Rightarrow> 'w \<Rightarrow> (Result \<times> 'w) option" where
  "DeleteDirectoryRecursively_stdio fuel e path ignore_read_only s =
    (if \<not> (ignore_read_only \<or> \<not> is_read_only path) then Some (Result_FsReadOnly, s)
     else case remove_dir_recursive_impl fuel e path s of
            None \<Rightarrow> None
          | Some (r, s1) \<Rightarrow>
              if r \<noteq> 0 then Some (stdio_failure e s1, s1) else Some (Success, s1))"

subsection \<open>File handles\<close>

text \<open>
  An \<^verbatim>\<open>Fs\<close> object: which backend it is bound to, its service session, its override flag
  and the result of opening it. A \<^verbatim>\<open>File\<close> holds a pointer to the \<^verbatim>\<open>Fs\<close> that opened it
  (\<open>None\<close> is the null pointer), the open mode, the native session, the stdio stream and
  the offset the stream was last left at.
\<close>

record Fs =
  IsNative :: bool
  fs_session :: nat
  fs_ignore_read_only :: bool
  GetFsOpenResult :: Result

record File =
  m_fs :: "Fs option"
  m_mode :: u32
  m_native :: nat
  m_stdio :: nat
  m_stdio_off :: s64

definition File_new :: File where
  "File_new = \<lparr>m_fs = None, m_mode = 0, m_native = 0, m_stdio = 0, m_stdio_off = 0\<rparr>"

text \<open>
  Modelled from the spec: the constructor \<^verbatim>\<open>FsNative{fs, own, ignore_read_only}\<close> is declared
  in a header that is not among the sources. It borrows an open session ("bound, at
  construction, to exactly one of native-service, POSIX"), so its open result is success.
  Its methods \<^verbatim>\<open>CreateFile\<close>, \<^verbatim>\<open>OpenFile\<close> and \<^verbatim>\<open>Commit\<close>, declared there too, are taken to
  pass the session and the override flag of the object to \<^verbatim>\<open>fs::CreateFile\<close>,
  \<^verbatim>\<open>fs::OpenFile\<close> and \<^verbatim>\<open>fsFsCommit\<close> ("applies PathPolicy before every mutating call").
\<close>

definition FsNative :: "nat \<Rightarrow> bool \<Rightarrow> Fs" where
  "FsNative fs ignore_read_only =
    \<lparr>IsNative = True, fs_session = fs, fs_ignore_read_only = ignore_read_only,
     GetFsOpenResult = Success\<rparr>"

definition OpenFile ::
  "'w env \<Rightarrow> Fs \<Rightarrow> string \<Rightarrow> u32 \<Rightarrow> File \<Rightarrow> 'w \<Rightarrow> Result \<times> File \<times> 'w" where
  "OpenFile e fs path mode f0 s =
    (let f = f0\<lparr>m_fs := Some fs, m_mode := mode\<rparr>
     in if IsNative fs then
          (case fsFsOpenFile (nx e) (fs_session fs) path mode s of
             (rc, h, s1) \<Rightarrow>
               if R_FAILED rc then (rc, f, s1) else (Success, f\<lparr>m_native := h\<rparr>, s1))
        else
          (case (if and mode FsOpenMode_Read \<noteq> 0 \<and> and mode FsOpenMode_Write \<noteq> 0
                   then (case c_fopen (io e) path ''rb+'' s of
                           (fp, s1) \<Rightarrow> (f\<lparr>m_stdio := fp\<rparr>, s1))
                 else if and mode FsOpenMode_Read \<noteq> 0
                   then (case c_fopen (io e) path ''rb'' s of
                           (fp, s1) \<Rightarrow> (f\<lparr>m_stdio := fp\<rparr>, s1))
                 else if and mode FsOpenMode_Write \<noteq> 0
                   then (case c_fopen (io e) path ''rb+'' s of
                           (fp, s1) \<Rightarrow> (f\<lparr>m_stdio := fp\<rparr>, s1))
                 else (f, s)) of
             (f1, s1) \<Rightarrow>
               if m_stdio f1 = 0 then (Result_FsUnknownStdioError, f1, s1)
               else (Success, f1, s1)))"

text \<open>
  \<^verbatim>\<open>File::Read\<close> returns the result code, the bytes stored into \<open>buf\<close>, the value left in
  \<^verbatim>\<open>*bytes_read\<close>, the handle and the world. \<^verbatim>\<open>fread\<close> and \<^verbatim>\<open>fsFileRead\<close> hand back the
  bytes they stored; their count is the number of bytes read.
\<close>

definition File_Read ::
  "'w env \<Rightarrow> File \<Rightarrow> s64 \<Rightarrow> u64 \<Rightarrow> u32 \<Rightarrow> 'w \<Rightarrow> Result \<times> u8 list \<times> u64 \<times> File \<times> 'w" where
  "File_Read e f off read_size opt s =
    (case m_fs f of
       None \<Rightarrow> (Result_FsNotActive, [], 0, f, s)
     | Some fs \<Rightarrow>
         if IsNative fs then
           (case fsFileRead (nx e) (m_native f) off read_size opt s of
              (rc, data, s1) \<Rightarrow>
                if R_FAILED rc then (rc, [], 0, f, s1)
                else (Success, data, of_nat (length data), f, s1))
         else
           (case (if m_stdio_off f \<noteq> off
                    then (f\<lparr>m_stdio_off := off\<rparr>,
                          snd (c_fseek (io e) (m_stdio f) off SEEK_SET s))
                  else (f, s)) of
              (f1, s1) \<Rightarrow>
                (case c_fread (io e) (m_stdio f1) read_size s1 of
                   (data, s2) \<Rightarrow>
                     (let bytes_read = (of_nat (length data) :: u64)
                      in if bytes_read < read_size
                            \<and> \<not> c_feof (io e) (m_stdio f1) s2
                            \<and> c_ferror (io e) (m_stdio f1) s2
                         then (Result_FsUnknownStdioError, data, bytes_read, f1, s2)
                         else (Success, data, bytes_read,
                               f1\<lparr>m_stdio_off := m_stdio_off f1 + bytes_read\<rparr>, s2)))))"

definition File_Write ::
  "'w env \<Rightarrow> File \<Rightarrow> s64 \<Rightarrow> u8 list \<Rightarrow> u32 \<Rightarrow> 'w \<Rightarrow> Result \<times> File \<times> 'w" where
  "File_Write e f off buf opt s =
    (let write_size = (of_nat (length buf) :: u64)
     in case m_fs f of
          None \<Rightarrow> (Result_FsNotActive, f, s)
        | Some fs \<Rightarrow>
            if IsNative fs then
              (case fsFileWrite (nx e) (m_native f) off buf opt s of
                 (rc, s1) \<Rightarrow> if R_FAILED rc then (rc, f, s1) else (Success, f, s1))
            else
              (case (if m_stdio_off f \<noteq> off
                       then (f\<lparr>m_stdio_off := off\<rparr>,
                             snd (c_fseek (io e) (m_stdio f) off SEEK_SET s))
                     else (f, s)) of
                 (f1, s1) \<Rightarrow>
                   (case c_fwrite (io e) (m_stdio f1) buf s1 of
                      (result, s2) \<Rightarrow>
                        if \<not> ((of_nat result :: u64) = write_size)
                        then (Result_FsUnknownStdioError, f1, s2)
                        else (Success, f1\<lparr>m_stdio_off := m_stdio_off f1 + write_size\<rparr>, s2))))"

definition File_SetSize :: "'w env \<Rightarrow> File \<Rightarrow> s64 \<Rightarrow> 'w \<Rightarrow> Result \<times> 'w" where
  "File_SetSize e f sz s =
    (case m_fs f of
       None \<Rightarrow> (Result_FsNotActive, s)
     | Some fs \<Rightarrow>
         if IsNative fs then
           (case fsFileSetSize (nx e) (m_native f) sz s of
              (rc, s1) \<Rightarrow> if R_FAILED rc then (rc, s1) else (Success, s1))
         else
           (let fd = c_fileno (io e) (m_stdio f) s
            in if \<not> (fd > 0) then (Result_FsUnknownStdioError, s)
               else (case c_ftruncate (px e) fd sz s of
                       (r, s1) \<Rightarrow>
                         if \<not> (r = 0) then (Result_FsUnknownStdioError, s1)
                         else (Success, s1))))"

text \<open>
  \<^verbatim>\<open>File::GetSize(s64* out)\<close> returns the result code, the value of \<^verbatim>\<open>*out\<close> and the world;
  \<open>out0\<close> is the value the caller's cell holds at the call, and it is left there on every
  failure.
\<close>

definition File_GetSize ::
  "'w env \<Rightarrow> File \<Rightarrow> s64 \<Rightarrow> 'w \<Rightarrow> Result \<times> s64 \<times> 'w" where
  "File_GetSize e f out0 s =
    (case m_fs f of
       None \<Rightarrow> (Result_FsNotActive, out0, s)
     | Some fs \<Rightarrow>
         if IsNative fs then
           (case fsFileGetSize (nx e) (m_native f) s of
              (rc, sz, s1) \<Rightarrow> if R_FAILED rc then (rc, out0, s1) else (Success, sz, s1))
         else
           (case c_fstat_size (io e) (c_fileno (io e) (m_stdio f) s) s of
              (r, sz) \<Rightarrow>
                if \<not> (r = 0) then (Result_FsUnknownStdioError, out0, s)
                else (Success, sz, s)))"

text \<open>
  \<^verbatim>\<open>File::Close\<close>, which the destructor runs. \<^verbatim>\<open>serviceIsActive\<close> is "the session is not 0";
  \<^verbatim>\<open>m_fs->Commit()\<close> of a native \<^verbatim>\<open>Fs\<close> is \<^verbatim>\<open>fsFsCommit\<close> on its session.
\<close>

definition File_Close :: "'w env \<Rightarrow> File \<Rightarrow> 'w \<Rightarrow> File \<times> 'w" where
  "File_Close e f s =
    (case m_fs f of
       None \<Rightarrow> (f, s)
     | Some fs \<Rightarrow>
         if IsNative fs then
           (if m_native f \<noteq> 0 then
              (let s1 = fsFileClose (nx e) (m_native f) s;
                   s2 = (if and (m_mode f) FsOpenMode_Write \<noteq> 0
                         then snd (fsFsCommit (nx e) (fs_session fs) s1) else s1)
               in (f\<lparr>m_native := 0\<rparr>, s2))
            else (f, s))
         else
           (if m_stdio f \<noteq> 0
            then (f\<lparr>m_stdio := 0\<rparr>, c_fclose (io e) (m_stdio f) s)
            else (f, s)))"

subsection \<open>Whole-file operations\<close>

text \<open>
  The vectors of bytes are lists, and memory is not bounded: \<^verbatim>\<open>out.resize(size)\<close> always
  gives the vector its new length (an allocation that fails is outside the model). The
  local \<^verbatim>\<open>s64 size\<close> of the native \<^verbatim>\<open>read_entire_file\<close> is not initialised; it is read only
  after \<^verbatim>\<open>GetSize\<close> has succeeded and written it, and 0 stands for its first value.
\<close>

text \<open>The bytes of \<open>out\<close> after \<open>data\<close> was stored at its start.\<close>

definition store_at_start :: "u8 list \<Rightarrow> u8 list \<Rightarrow> u8 list" where
  "store_at_start out data = take (length out) data @ drop (length data) out"

definition read_entire_file_native ::
  "'w env \<Rightarrow> nat \<Rightarrow> string \<Rightarrow> 'w \<Rightarrow> Result \<times> u8 list \<times> 'w" where
  "read_entire_file_native e fs0 path s =
    (let fs = FsNative fs0 True
     in if R_FAILED (GetFsOpenResult fs) then (GetFsOpenResult fs, [], s)
        else case OpenFile e fs path FsOpenMode_Read File_new s of
          (rc, f, s1) \<Rightarrow>
            if R_FAILED rc then (rc, [], snd (File_Close e f s1))
            else case File_GetSize e f 0 s1 of
              (rc2, sz, s2) \<Rightarrow>
                if R_FAILED rc2 then (rc2, [], snd (File_Close e f s2))
                else if sint sz < 0 then (Result_FsUnknownStdioError, [], snd (File_Close e f s2))
                else
                  (let out = replicate (unat sz) (0 :: u8)
                   in case File_Read e f 0 (of_nat (length out)) 0 s2 of
                        (rc3, data, bytes_read, f3, s3) \<Rightarrow>
                          if R_FAILED rc3
                          then (rc3, store_at_start out data, snd (File_Close e f3 s3))
                          else if \<not> (bytes_read = of_nat (length out))
                          then (Result_Other 1, store_at_start out data,
                                snd (File_Close e f3 s3))
                          else (Success, store_at_start out data, snd (File_Close e f3 s3))))"

definition write_entire_file_native ::
  "'w env \<Rightarrow> nat \<Rightarrow> string \<Rightarrow> u8 list \<Rightarrow> bool \<Rightarrow> 'w \<Rightarrow> Result \<times> 'w" where
  "write_entire_file_native e fs0 path inp ignore_read_only s =
    (if \<not> (ignore_read_only \<or> \<not> is_read_only path) then (Result_FsReadOnly, s)
     else
       let fs = FsNative fs0 ignore_read_only
       in if R_FAILED (GetFsOpenResult fs) then (GetFsOpenResult fs, s)
          else case CreateFile_native e (fs_session fs) path (of_nat (length inp)) 0
                      (fs_ignore_read_only fs) s of
            (rc, s1) \<Rightarrow>
              if R_FAILED rc \<and> rc \<noteq> FsError_PathAlreadyExists then (rc, s1)
              else case OpenFile e fs path FsOpenMode_Write File_new s1 of
                (rc2, f, s2) \<Rightarrow>
                  if R_FAILED rc2 then (rc2, snd (File_Close e f s2))
                  else case File_SetSize e f (of_nat (length inp)) s2 of
                    (rc3, s3) \<Rightarrow>
                      if R_FAILED rc3 then (rc3, snd (File_Close e f s3))
                      else case File_Write e f 0 inp 0 s3 of
                        (rc4, f4, s4) \<Rightarrow>
                          if R_FAILED rc4 then (rc4, snd (File_Close e f4 s4))
                          else (Success, snd (File_Close e f4 s4)))"

definition copy_entire_file_native ::
  "'w env \<Rightarrow> nat \<Rightarrow> string \<Rightarrow> string \<Rightarrow> bool \<Rightarrow> 'w \<Rightarrow> Result \<times> 'w" where
  "copy_entire_file_native e fs dst src ignore_read_only s =
    (if \<not> (ignore_read_only \<or> \<not> is_read_only dst) then (Result_FsReadOnly, s)
     else case read_entire_file_native e fs src s of
            (rc, data, s1) \<Rightarrow>
              if R_FAILED rc then (rc, s1)
              else write_entire_file_native e fs dst data ignore_read_only s1)"

definition read_entire_file_stdio ::
  "'w env \<Rightarrow> string \<Rightarrow> 'w \<Rightarrow> Result \<times> u8 list \<times> 'w" where
  "read_entire_file_stdio e path s =
    (case c_fopen (io e) path ''rb'' s of
       (f, s1) \<Rightarrow>
         if f = 0 then (stdio_failure e s1, [], s1)
         else case c_fseek (io e) f 0 SEEK_END s1 of
           (r, s2) \<Rightarrow>
             if r \<noteq> 0 then (stdio_failure e s2, [], c_fclose (io e) f s2)
             else case c_ftell (io e) f s2 of
               (pos, s3) \<Rightarrow>
                 if pos < 0 then (stdio_failure e s3, [], c_fclose (io e) f s3)
                 else
                   (let s4 = c_rewind (io e) f s3;
                        out = replicate (nat pos) (0 :: u8)
                    in case c_fread (io e) f (of_nat (length out)) s4 of
                         (data, s5) \<Rightarrow>
                           if length data \<noteq> length out then
                             (if c_ferror (io e) f s5
                              then (stdio_failure e s5, store_at_start out data,
                                    c_fclose (io e) f s5)
                              else (Success, take (length data) (store_at_start out data),
                                    c_fclose (io e) f s5))
                           else (Success, store_at_start out data, c_fclose (io e) f s5)))"

definition write_entire_file_stdio ::
  "'w env \<Rightarrow> string \<Rightarrow> u8 list \<Rightarrow> bool \<Rightarrow> 'w \<Rightarrow> Result \<times> 'w" where
  "write_entire_file_stdio e path inp ignore_read_only s =
    (if \<not> (ignore_read_only \<or> \<not> is_read_only path) then (Result_FsReadOnly, s)
     else case c_fopen (io e) path ''wb'' s of
            (f, s1) \<Rightarrow>
              if f = 0 then (stdio_failure e s1, s1)
              else case c_fwrite (io e) f inp s1 of
                (written, s2) \<Rightarrow>
                  if written \<noteq> length inp then (stdio_failure e s2, c_fclose (io e) f s2)
                  else (Success, c_fclose (io e) f s2))"

definition copy_entire_file_stdio ::
  "'w env \<Rightarrow> string \<Rightarrow> string \<Rightarrow> bool \<Rightarrow> 'w \<Rightarrow> Result \<times> 'w" where
  "copy_entire_file_stdio e dst src ignore_read_only s =
    (if \<not> (ignore_read_only \<or> \<not> is_read_only dst) then (Result_FsReadOnly, s)
     else case read_entire_file_stdio e src s of
            (rc, data, s1) \<Rightarrow>
              if R_FAILED rc then (rc, s1)
              else write_entire_file_stdio e dst data ignore_read_only s1)"

subsection \<open>Directory handles\<close>

datatype FsDirEntryType = FsDirEntryType_Dir | FsDirEntryType_File

record FsDirectoryEntry =
  name :: string
  type :: FsDirEntryType

text \<open>
  A \<^verbatim>\<open>Dir\<close> of the POSIX backend owns an open directory stream; the stream is the list
  of the entries \<^verbatim>\<open>readdir\<close> has not returned yet, and \<^verbatim>\<open>readdir\<close> takes its head (or
  returns null on the empty list). On the native backend the listing is one call of
  \<^verbatim>\<open>fsDirRead\<close>, an argument here.
\<close>

record Dir =
  d_fs :: "Fs option"
  d_mode :: u32
  d_native :: nat
  d_stdio :: "dirent list"

text \<open>
  The \<^verbatim>\<open>while (auto d = readdir(m_stdio))\<close> loop of \<^verbatim>\<open>Dir::Read\<close>: the entries stored in
  \<open>buf\<close> so far and the stream. The branch for a type that is neither \<^verbatim>\<open>DT_DIR\<close> nor
  \<^verbatim>\<open>DT_REG\<close> builds an empty string, logs a warning and tags the entry as a file.
\<close>

fun Dir_Read_loop ::
  "u32 \<Rightarrow> u64 \<Rightarrow> dirent list \<Rightarrow> FsDirectoryEntry list
     \<Rightarrow> FsDirectoryEntry list \<times> dirent list" where
  "Dir_Read_loop mode max_entries [] buf = (buf, [])"
| "Dir_Read_loop mode max_entries (d # ds) buf =
     (if d_name d = ''.'' \<or> d_name d = ''..'' then Dir_Read_loop mode max_entries ds buf
      else
       (case (if d_type d = DT_DIR then
                (if and mode FsDirOpenMode_ReadDirs = 0 then None
                 else Some FsDirEntryType_Dir)
              else if d_type d = DT_REG then
                (if and mode FsDirOpenMode_ReadFiles = 0 then None
                 else Some FsDirEntryType_File)
              else Some FsDirEntryType_File) of
          None \<Rightarrow> Dir_Read_loop mode max_entries ds buf
        | Some t \<Rightarrow>
            (let buf1 = buf @ [\<lparr>name = d_name d, type = t\<rparr>]
             in if (of_nat (length buf1) :: u64) \<ge> max_entries then (buf1, ds)
                else Dir_Read_loop mode max_entries ds buf1)))"

text \<open>
  \<^verbatim>\<open>Dir::Read\<close> returns the result code, the value of \<^verbatim>\<open>*total_entries\<close>, the entries stored
  in \<open>buf\<close> and the handle; \<open>total_entries0\<close> is the value the caller's cell holds at the
  call, which a handle that is not active leaves there.
\<close>

definition Dir_Read ::
  "(nat \<Rightarrow> u64 \<Rightarrow> Result \<times> FsDirectoryEntry list) \<Rightarrow> Dir \<Rightarrow> s64 \<Rightarrow> u64
     \<Rightarrow> Result \<times> s64 \<times> FsDirectoryEntry list \<times> Dir" where
  "Dir_Read fsDirRead d total_entries0 max_entries =
    (case d_fs d of
       None \<Rightarrow> (Result_FsNotActive, total_entries0, [], d)
     | Some fs \<Rightarrow>
         if IsNative fs then
           (case fsDirRead (d_native d) max_entries of
              (rc, entries) \<Rightarrow>
                if R_FAILED rc then (rc, 0, [], d)
                else (Success, of_nat (length entries), entries, d))
         else
           (case Dir_Read_loop (d_mode d) max_entries (d_stdio d) [] of
              (buf, rest) \<Rightarrow> (Success, of_nat (length buf), buf, d\<lparr>d_stdio := rest\<rparr>)))"

text \<open>The loop of \<^verbatim>\<open>Dir::ReadAll\<close> on the POSIX backend: another type is logged and left out.\<close>

fun Dir_ReadAll_loop :: "u32 \<Rightarrow> dirent list \<Rightarrow> FsDirectoryEntry list" where
  "Dir_ReadAll_loop mode [] = []"
| "Dir_ReadAll_loop mode (d # ds) =
     (if d_name d = ''.'' \<or> d_name d = ''..'' then Dir_ReadAll_loop mode ds
      else if d_type d = DT_DIR then
        (if and mode FsDirOpenMode_ReadDirs = 0 then Dir_ReadAll_loop mode ds
         else \<lparr>name = d_name d, type = FsDirEntryType_Dir\<rparr> # Dir_ReadAll_loop mode ds)
      else if d_type d = DT_REG then
        (if and mode FsDirOpenMode_ReadFiles = 0 then Dir_ReadAll_loop mode ds
         else \<lparr>name = d_name d, type = FsDirEntryType_File\<rparr> # Dir_ReadAll_loop mode ds)
      else Dir_ReadAll_loop mode ds)"

subsection \<open>Sources of bytes and the hash engine\<close>

text \<open>
  \<^verbatim>\<open>BaseSource\<close> and \<^verbatim>\<open>HashSource\<close> are interfaces: records of their virtual functions,
  acting on the state of the object (\<open>'s\<close> for a source, \<open>'h\<close> for a digest).
\<close>

record 's BaseSource =
  Size :: "'s \<Rightarrow> Result \<times> s64 \<times> 's"
  Read :: "s64 \<Rightarrow> s64 \<Rightarrow> 's \<Rightarrow> Result \<times> u8 list \<times> u64 \<times> 's"

record 'h HashSource =
  Update :: "u8 list \<Rightarrow> s64 \<Rightarrow> 'h \<Rightarrow> 'h"
  Get :: "'h \<Rightarrow> string \<times> 'h"

text \<open>
  \<^verbatim>\<open>MemSource\<close> wraps the span \<open>m_data\<close>. \<^verbatim>\<open>Read\<close> is given the pointer \<open>bytes_read\<close>
  (\<open>None\<close> is null, \<open>Some v\<close> points at a cell holding \<open>v\<close>) and returns the result code, the
  bytes \<^verbatim>\<open>memcpy\<close> stored into \<open>buf\<close> and the cell. \<^verbatim>\<open>memcpy\<close> of a range that does not lie
  inside the span is undefined behaviour: \<open>None\<close>.
\<close>

definition MemSource_Size :: "u8 list \<Rightarrow> Result \<times> s64" where
  "MemSource_Size m_data = (Success, of_nat (length m_data))"

definition MemSource_Read ::
  "u8 list \<Rightarrow> s64 \<Rightarrow> s64 \<Rightarrow> u64 option \<Rightarrow> (Result \<times> u8 list \<times> u64 option) option" where
  "MemSource_Read m_data off sz bytes_read =
    (if sint off < 0 then Some (Success, [], map_option (\<lambda>_. 0) bytes_read)
     else
       let avail = (of_nat (length m_data) :: s64) - off
       in if sint avail \<le> 0 then Some (Success, [], map_option (\<lambda>_. 0) bytes_read)
          else
            let to_read = (if sint avail < sint sz then avail else sz)
            in if unat off + unat to_read \<le> length m_data
               then Some (Success, take (unat to_read) (drop (unat off) m_data),
                          map_option (\<lambda>_. to_read) bytes_read)
               else None)"

text \<open>
  \<^verbatim>\<open>Hash(pbox, hash, source, out)\<close>. \<^verbatim>\<open>thread::Transfer\<close> lives in a file that is not among
  the sources: it is the argument \<open>Transfer\<close>, which gets the two lambdas of the code and
  the state they act on (the source and the digest).
\<close>

type_synonym ('p, 'x) transfer =
  "'p \<Rightarrow> s64 \<Rightarrow> (s64 \<Rightarrow> s64 \<Rightarrow> 'x \<Rightarrow> Result \<times> u8 list \<times> u64 \<times> 'x)
      \<Rightarrow> (u8 list \<Rightarrow> s64 \<Rightarrow> s64 \<Rightarrow> 'x \<Rightarrow> Result \<times> 'x) \<Rightarrow> 'x \<Rightarrow> Result \<times> 'x"

definition read_lambda ::
  "'s BaseSource \<Rightarrow> s64 \<Rightarrow> s64 \<Rightarrow> 's \<times> 'h \<Rightarrow> Result \<times> u8 list \<times> u64 \<times> ('s \<times> 'h)" where
  "read_lambda source off sz x =
    (case Read source off sz (fst x) of
       (rc, data, bytes_read, s1) \<Rightarrow> (rc, data, bytes_read, (s1, snd x)))"

definition write_lambda ::
  "'h HashSource \<Rightarrow> u8 list \<Rightarrow> s64 \<Rightarrow> s64 \<Rightarrow> 's \<times> 'h \<Rightarrow> Result \<times> ('s \<times> 'h)" where
  "write_lambda hash data off sz x = (Success, (fst x, Update hash data sz (snd x)))"

definition Hash ::
  "('p, 's \<times> 'h) transfer \<Rightarrow> 'p \<Rightarrow> 'h HashSource \<Rightarrow> 's BaseSource \<Rightarrow> string
     \<Rightarrow> 's \<times> 'h \<Rightarrow> Result \<times> string \<times> ('s \<times> 'h)" where
  "Hash Transfer pbox hash source out x =
    (case Size source (fst x) of
       (rc, file_size, s1) \<Rightarrow>
         if R_FAILED rc then (rc, out, (s1, snd x))
         else case Transfer pbox file_size (read_lambda source) (write_lambda hash)
                     (s1, snd x) of
           (rc2, x2) \<Rightarrow>
             if R_FAILED rc2 then (rc2, out, x2)
             else (case Get hash (snd x2) of
                     (str, h3) \<Rightarrow> (Success, str, (fst x2, h3))))"

datatype Type = Crc32 | Md5 | Sha1 | Sha256

text \<open>
  \<^verbatim>\<open>Hash(pbox, type, source, out)\<close>: \<open>make_unique\<close> is \<^verbatim>\<open>std::make_unique\<close> of the digest class of
  each type, giving the object's functions and its fresh state.
\<close>

definition Hash_type ::
  "('p, 's \<times> 'h) transfer \<Rightarrow> 'p \<Rightarrow> (Type \<Rightarrow> 'h HashSource \<times> 'h) \<Rightarrow> Type
     \<Rightarrow> 's BaseSource \<Rightarrow> string \<Rightarrow> 's \<Rightarrow> Result \<times> string \<times> ('s \<times> 'h)" where
  "Hash_type Transfer pbox make_unique ty source out s =
    (case ty of
       Crc32 \<Rightarrow> Hash Transfer pbox (fst (make_unique Crc32)) source out (s, snd (make_unique Crc32))
     | Md5 \<Rightarrow> Hash Transfer pbox (fst (make_unique Md5)) source out (s, snd (make_unique Md5))
     | Sha1 \<Rightarrow> Hash Transfer pbox (fst (make_unique Sha1)) source out (s, snd (make_unique Sha1))
     | Sha256 \<Rightarrow> Hash Transfer pbox (fst (make_unique Sha256)) source out (s, snd (make_unique Sha256)))"

subsection \<open>The transfer driver, from the specification\<close>

text \<open>
  Modelled from the spec: \<^verbatim>\<open>thread::Transfer\<close> and the progress box are defined in files
  that are not among the sources. The specification describes the driving loop: "repeatedly
  pull fixed-size chunks from \<open>source.Read\<close> at increasing offsets, feeding each chunk to
  \<open>algorithm.Update\<close>, until the cumulative offset reaches the size or a read returns zero
  bytes with no error"; "the driving loop consults an externally owned cancellation flag
  before pulling the next chunk"; on cancellation "the operation reports a cancellation
  error". The flag is owned outside: \<open>ShouldExit pbox k\<close> is its value when it is consulted
  after \<open>k\<close> chunks.
\<close>

record ProgressBox =
  chunk_size :: nat
  ShouldExit :: "nat \<Rightarrow> bool"

function Transfer_loop ::
  "ProgressBox \<Rightarrow> int
     \<Rightarrow> (s64 \<Rightarrow> s64 \<Rightarrow> 'x \<Rightarrow> Result \<times> u8 list \<times> u64 \<times> 'x)
     \<Rightarrow> (u8 list \<Rightarrow> s64 \<Rightarrow> s64 \<Rightarrow> 'x \<Rightarrow> Result \<times> 'x)
     \<Rightarrow> int \<Rightarrow> nat \<Rightarrow> 'x \<Rightarrow> Result \<times> 'x" where
  "Transfer_loop pbox len rd wr off k x =
    (if len \<le> off then (Success, x)
     else if ShouldExit pbox k then (Result_TransferCancelled, x)
     else case rd (of_int off) (of_int (min (int (chunk_size pbox)) (len - off))) x of
            (rc, data, n, x1) \<Rightarrow>
              if R_FAILED rc then (rc, x1)
              else if n = 0 then (Success, x1)
              else (case wr data (of_int off) (of_int (uint n)) x1 of
                      (rc2, x2) \<Rightarrow>
                        if R_FAILED rc2 then (rc2, x2)
                        else Transfer_loop pbox len rd wr (off + uint n) (Suc k) x2))"
  by pat_completeness auto
termination
proof (relation "measure (\<lambda>(pbox, len, rd, wr, off, k, x). nat (len - off))")
  show "wf (measure (\<lambda>(pbox, len, rd, wr, off, k, x). nat (len - off)))"
    by simp
next
  fix pbox :: ProgressBox and len off :: int and k :: nat and x x1 x2 :: 'x
    and rd :: "s64 \<Rightarrow> s64 \<Rightarrow> 'x \<Rightarrow> Result \<times> u8 list \<times> u64 \<times> 'x"
    and wr :: "u8 list \<Rightarrow> s64 \<Rightarrow> s64 \<Rightarrow> 'x \<Rightarrow> Result \<times> 'x"
    and n :: u64
  assume "\<not> len \<le> off" and "n \<noteq> 0"
  moreover from \<open>n \<noteq> 0\<close> have "0 < uint n"
    by (simp add: uint_0_iff order_less_le)
  ultimately show "((pbox, len, rd, wr, off + uint n, Suc k, x2), (pbox, len, rd, wr, off, k, x))
      \<in> measure (\<lambda>(pbox, len, rd, wr, off, k, x). nat (len - off))"
    by simp
qed

declare Transfer_loop.simps [simp del]

definition Transfer_spec :: "(ProgressBox, 'x) transfer" where
  "Transfer_spec pbox file_size rd wr x = Transfer_loop pbox (sint file_size) rd wr 0 0 x"

text \<open>
  A digest object that also counts the calls of \<^verbatim>\<open>Get\<close>: the digest \<open>hash\<close> with a counter
  beside its state.
\<close>

definition counting :: "'h HashSource \<Rightarrow> ('h \<times> nat) HashSource" where
  "counting hash =
    \<lparr>Update = (\<lambda>data sz hk. (Update hash data sz (fst hk), snd hk)),
     Get = (\<lambda>hk. (fst (Get hash (fst hk)), (snd (Get hash (fst hk)), Suc (snd hk))))\<rparr>"

subsection \<open>Environments for examples\<close>

text \<open>An environment in which every call succeeds and leaves the world as it is.\<close>

definition ok_nx :: "'w nx_env" where
  "ok_nx =
    \<lparr>fsFsCreateFile = (\<lambda>fs p sz opt s. (Success, s)),
     fsFsCommit = (\<lambda>fs s. (Success, s)),
     fsFsCreateDirectory = (\<lambda>fs p s. (Success, s)),
     fsFsDeleteFile = (\<lambda>fs p s. (Success, s)),
     fsFsDeleteDirectory = (\<lambda>fs p s. (Success, s)),
     fsFsDeleteDirectoryRecursively = (\<lambda>fs p s. (Success, s)),
     fsFsRenameFile = (\<lambda>fs a b s. (Success, s)),
     fsFsRenameDirectory = (\<lambda>fs a b s. (Success, s)),
     fsFsOpenFile = (\<lambda>fs p m s. (Success, 1, s)),
     fsFileRead = (\<lambda>h off sz opt s. (Success, [], s)),
     fsFileWrite = (\<lambda>h off buf opt s. (Success, s)),
     fsFileSetSize = (\<lambda>h sz s. (Success, s)),
     fsFileGetSize = (\<lambda>h s. (Success, 0, s)),
     fsFileClose = (\<lambda>h s. s)\<rparr>"

definition ok_px :: "'w posix_env" where
  "ok_px =
    \<lparr>c_open = (\<lambda>p fl m s. (3, s)),
     c_close = (\<lambda>fd s. s),
     c_ftruncate = (\<lambda>fd sz s. (0, s)),
     c_mkdir = (\<lambda>p m s. (0, s)),
     c_unlink = (\<lambda>p s. (0, s)),
     c_rmdir = (\<lambda>p s. (0, s)),
     c_rename = (\<lambda>a b s. (0, s)),
     c_errno = (\<lambda>s. 0),
     fsdevGetLastResult = (\<lambda>s. Success),
     c_lstat = (\<lambda>p s. (0, 0, s)),
     c_opendir = (\<lambda>p s. (1, s)),
     c_readdir = (\<lambda>d s. (None, s)),
     c_closedir = (\<lambda>d s. s)\<rparr>"

definition ok_io :: "'w stdio_env" where
  "ok_io =
    \<lparr>c_fopen = (\<lambda>p m s. (1, s)),
     c_fclose = (\<lambda>f s. s),
     c_fseek = (\<lambda>f off wh s. (0, s)),
     c_ftell = (\<lambda>f s. (0, s)),
     c_rewind = (\<lambda>f s. s),
     c_fread = (\<lambda>f n s. ([], s)),
     c_fwrite = (\<lambda>f buf s. (length buf, s)),
     c_ferror = (\<lambda>f s. False),
     c_feof = (\<lambda>f s. True),
     c_fileno = (\<lambda>f s. 3),
     c_fstat_size = (\<lambda>fd s. (0, 0))\<rparr>"

text \<open>An \<^verbatim>\<open>Fs\<close> object of the POSIX backend.\<close>

definition FsStdio :: Fs where
  "FsStdio =
    \<lparr>IsNative = False, fs_session = 0, fs_ignore_read_only = False, GetFsOpenResult = Success\<rparr>"

definition ok_env :: "'w env" where
  "ok_env = \<lparr>nx = ok_nx, px = ok_px, io = ok_io\<rparr>"

text \<open>
  A small POSIX file tree: the directories and the regular files that exist, by path, and
  \<^verbatim>\<open>errno\<close>. \<^verbatim>\<open>mkdir\<close> fails with \<^verbatim>\<open>EEXIST\<close> on a path that exists and with \<^verbatim>\<open>ENOENT\<close>
  when the parent directory is missing. \<^verbatim>\<open>open\<close> follows POSIX: on a file that exists it
  fails with \<^verbatim>\<open>EEXIST\<close> only when both \<^verbatim>\<open>O_CREAT\<close> and \<^verbatim>\<open>O_EXCL\<close> are set, and opens the
  file otherwise.
\<close>

record tree =
  t_dirs :: "string list"
  t_files :: "string list"
  t_errno :: int

definition ENOENT :: int where "ENOENT = 2"
definition EISDIR :: int where "EISDIR = 21"

definition parent_dir :: "string \<Rightarrow> string" where
  "parent_dir p = (case strrchr p CHR ''/'' of None \<Rightarrow> [] | Some i \<Rightarrow> take i p)"

definition parent_exists :: "tree \<Rightarrow> string \<Rightarrow> bool" where
  "parent_exists s p = (parent_dir p = [] \<or> parent_dir p \<in> set (t_dirs s))"

definition tree_mkdir :: "string \<Rightarrow> u32 \<Rightarrow> tree \<Rightarrow> int \<times> tree" where
  "tree_mkdir p m s =
    (if p \<in> set (t_dirs s) \<or> p \<in> set (t_files s) then (- 1, s\<lparr>t_errno := EEXIST\<rparr>)
     else if \<not> parent_exists s p then (- 1, s\<lparr>t_errno := ENOENT\<rparr>)
     else (0, s\<lparr>t_dirs := t_dirs s @ [p]\<rparr>))"

definition tree_open :: "string \<Rightarrow> u32 \<Rightarrow> u32 \<Rightarrow> tree \<Rightarrow> int \<times> tree" where
  "tree_open p flags m s =
    (if p \<in> set (t_files s) then
       (if and flags O_CREAT \<noteq> 0 \<and> and flags O_EXCL \<noteq> 0 then (- 1, s\<lparr>t_errno := EEXIST\<rparr>)
        else (3, s))
     else if p \<in> set (t_dirs s) then (- 1, s\<lparr>t_errno := EISDIR\<rparr>)
     else if and flags O_CREAT \<noteq> 0 \<and> parent_exists s p
       then (3, s\<lparr>t_files := t_files s @ [p]\<rparr>)
     else (- 1, s\<lparr>t_errno := ENOENT\<rparr>))"

definition tree_env :: "tree env" where
  "tree_env =
    \<lparr>nx = ok_nx,
     px = ok_px\<lparr>c_open := tree_open, c_mkdir := tree_mkdir, c_errno := t_errno,
                fsdevGetLastResult := (\<lambda>s. Result_Other (nat (t_errno s)))\<rparr>,
     io = ok_io\<rparr>"

text \<open>
  A path of three names below the root, the first two of 255 characters and the last of
  \<open>n\<close>: with \<open>n = 255\<close> it has 768 characters, the most a path value holds.
\<close>

definition deep_path :: "nat \<Rightarrow> string" where
  "deep_path n =
    CHR ''/'' # replicate 255 CHR ''x'' @ CHR ''/'' # replicate 255 CHR ''y''
      @ CHR ''/'' # replicate n CHR ''z''"

subsection \<open>Notions used to state the properties\<close>

text \<open>
  The paths the loop of \<^verbatim>\<open>CreateDirectoryRecursively\<close> hands to \<^verbatim>\<open>CreateDirectory\<close>, in
  order, when no call fails and the buffer is large enough; and all the paths a call of
  \<^verbatim>\<open>CreateDirectoryRecursively\<close> may hand over: the path itself, tried first, and those
  of the loop.
\<close>

fun loop_paths :: "string list \<Rightarrow> string \<Rightarrow> string list" where
  "loop_paths [] path = []"
| "loop_paths (dir # dirs) path =
     (if dir = [] then loop_paths dirs path
      else (path @ dir) # loop_paths dirs (path @ dir @ ''/''))"

definition created_paths :: "string \<Rightarrow> string list" where
  "created_paths path0 =
    path0 # loop_paths (split_view CHR ''/'' (snd (root_marker path0))) (fst (root_marker path0))"

text \<open>
  The walk in the words of the specification, on the list of paths to create: each path
  is created in turn; success and "already exists" move on to the next path, any other
  failure ends the walk and is its result; at the end of the list the result is success.
\<close>

fun walk_segments :: "'w env \<Rightarrow> nat \<Rightarrow> bool \<Rightarrow> string list \<Rightarrow> 'w \<Rightarrow> Result \<times> 'w" where
  "walk_segments e fs ignore_read_only [] s = (Success, s)"
| "walk_segments e fs ignore_read_only (q # qs) s =
     (case CreateDirectory_on e fs q ignore_read_only s of
        (rc, s1) \<Rightarrow>
          if R_FAILED rc \<and> rc \<noteq> FsError_PathAlreadyExists then (rc, s1)
          else walk_segments e fs ignore_read_only qs s1)"

text \<open>The room the loop takes in the path buffer: each piece that is not empty and its separator.\<close>

fun pieces_room :: "string list \<Rightarrow> nat" where
  "pieces_room [] = 0"
| "pieces_room (dir # dirs) = (if dir = [] then 0 else length dir + 1) + pieces_room dirs"

text \<open>The same for \<^verbatim>\<open>CreateDirectoryRecursivelyWithPath\<close>: the path and those of its directory part.\<close>

definition created_paths_with_path :: "string \<Rightarrow> string list" where
  "created_paths_with_path path0 =
    path0 # (case strrchr path0 CHR ''/'' of
               None \<Rightarrow> []
             | Some last_slash \<Rightarrow> created_paths (snprintf_s FS_MAX_PATH (take last_slash path0)))"

text \<open>An environment none of whose calls reports the read-only result of the policy.\<close>

definition never_read_only :: "'w env \<Rightarrow> bool" where
  "never_read_only e =
    ((\<forall>fs p sz opt s. fst (fsFsCreateFile (nx e) fs p sz opt s) \<noteq> Result_FsReadOnly)
     \<and> (\<forall>fs p m s. fst (fsFsOpenFile (nx e) fs p m s) \<noteq> Result_FsReadOnly)
     \<and> (\<forall>h off sz opt s. fst (fsFileRead (nx e) h off sz opt s) \<noteq> Result_FsReadOnly)
     \<and> (\<forall>h off buf opt s. fst (fsFileWrite (nx e) h off buf opt s) \<noteq> Result_FsReadOnly)
     \<and> (\<forall>h sz s. fst (fsFileSetSize (nx e) h sz s) \<noteq> Result_FsReadOnly)
     \<and> (\<forall>h s. fst (fsFileGetSize (nx e) h s) \<noteq> Result_FsReadOnly)
     \<and> (\<forall>s. fsdevGetLastResult (px e) s \<noteq> Result_FsReadOnly))"

section \<open>Properties\<close>

lemma starts_with_prefix: "starts_with s p = prefix p s"
  by (induction s p rule: starts_with.induct) auto

lemma root_loop_iff: "root_loop ps path = (\<exists>p \<in> set ps. prefix p path)"
  by (induction ps) (auto simp: starts_with_prefix)

lemma file_loop_iff: "file_loop ps path = (path \<in> set ps)"
  by (induction ps) auto

lemma strip_leading_slashes_dropWhile:
  "strip_leading_slashes f = dropWhile (\<lambda>c. c = CHR ''/'') f"
  by (induction f) auto

lemma FS_MAX_PATH_pos: "0 < FS_MAX_PATH"
  by (simp add: FS_MAX_PATH_def)

lemma strip_replicate: "\<exists>n. f = replicate n CHR ''/'' @ strip_leading_slashes f"
proof (induction f)
  case Nil
  show ?case by simp
next
  case (Cons c cs)
  show ?case
  proof (cases "c = CHR ''/''")
    case True
    from Cons obtain n where "cs = replicate n CHR ''/'' @ strip_leading_slashes cs" by blast
    then have "c # cs = replicate (Suc n) CHR ''/'' @ strip_leading_slashes (c # cs)"
      using True by simp
    then show ?thesis by blast
  next
    case False
    then have "c # cs = replicate 0 CHR ''/'' @ strip_leading_slashes (c # cs)" by simp
    then show ?thesis by blast
  qed
qed

lemma strip_no_slash: "take 1 (strip_leading_slashes f) \<noteq> ''/''"
  by (induction f) auto

subsection \<open>AppendPath\<close>

text \<open>
  Claim C9. For every root path \<open>r\<close> and file path \<open>f\<close>, \<open>AppendPath r f\<close> is the join of
  \<open>r\<close>, one separator and \<open>f\<close> without its leading slashes, cut to the capacity of a path:
  no separator is put after an empty \<open>r\<close> or after an \<open>r\<close> that ends with one; what is
  stripped from \<open>f\<close> is a run of slashes and what is left does not start with a slash; the
  result is shorter than \<open>FS_MAX_PATH\<close>, so its NUL lies inside the buffer, and a join
  that is too long is truncated.
\<close>

theorem AppendPath_joins:
  "AppendPath r f =
     take (FS_MAX_PATH - 1)
       ((if r = [] then [] else if last r = CHR ''/'' then r else r @ ''/'')
          @ strip_leading_slashes f)
   \<and> length (AppendPath r f) < FS_MAX_PATH
   \<and> take 1 (strip_leading_slashes f) \<noteq> ''/''
   \<and> (\<exists>n. f = replicate n CHR ''/'' @ strip_leading_slashes f)"
proof -
  have a: "AppendPath r f =
     take (FS_MAX_PATH - 1)
       ((if r = [] then [] else if last r = CHR ''/'' then r else r @ ''/'')
          @ strip_leading_slashes f)"
  proof (cases "r = []")
    case True
    then show ?thesis by (simp add: AppendPath_def snprintf_s_def)
  next
    case False
    then have "last r = r ! (length r - 1)" by (simp add: last_conv_nth)
    with False show ?thesis
      by (simp add: AppendPath_def snprintf_s_def Let_def del: take_append)
  qed
  have b: "length (AppendPath r f) < FS_MAX_PATH"
    unfolding a using FS_MAX_PATH_pos by simp
  show ?thesis using a b strip_no_slash strip_replicate by blast
qed

subsection \<open>MemSource::Read\<close>

lemma sint_of_nat_len: "n < 2 ^ 63 \<Longrightarrow> sint (of_nat n :: 64 word) = int n"
  by (simp add: signed_of_nat signed_take_bit_int_eq_self)

lemma of_nat_nat_sint: "0 \<le> sint (w :: 64 word) \<Longrightarrow> of_nat (nat (sint w)) = w"
  by simp

lemma unat_nonneg:
  assumes "0 \<le> sint (w :: 64 word)"
  shows "unat w = nat (sint w)"
proof -
  have lt: "sint w < 2 ^ 63" using sint_lt [of w] by simp
  have "unat w = unat (of_nat (nat (sint w)) :: 64 word)"
    using of_nat_nat_sint [OF assms] by simp
  also have "\<dots> = nat (sint w) mod 2 ^ 64" by (simp add: unat_of_nat)
  also have "\<dots> = nat (sint w)" using lt assms by (simp add: nat_less_iff)
  finally show ?thesis .
qed

lemma sint_avail:
  assumes "n < 2 ^ 63" "0 \<le> sint (off :: 64 word)"
  shows "sint ((of_nat n :: 64 word) - off) = int n - sint off"
proof -
  have "sint off < 2 ^ 63" using sint_lt [of off] by simp
  then have r: "- (2 ^ 63) \<le> int n - sint off" "int n - sint off < 2 ^ 63"
    using assms by auto
  have "sint ((of_nat n :: 64 word) - off) = signed_take_bit 63 (int n - sint off)"
    using assms(1) by (simp add: sint_word_diff sint_of_nat_len)
  also have "\<dots> = int n - sint off"
    using r by (simp add: signed_take_bit_int_eq_self)
  finally show ?thesis .
qed

lemma MemSource_Read_unfold:
  assumes "\<not> sint off < 0" "\<not> sint ((of_nat (length m_data) :: s64) - off) \<le> 0"
    and "to_read = (if sint ((of_nat (length m_data) :: s64) - off) < sint sz
                    then (of_nat (length m_data) :: s64) - off else sz)"
    and "unat off + unat to_read \<le> length m_data"
  shows "MemSource_Read m_data off sz bytes_read =
     Some (Success, take (unat to_read) (drop (unat off) m_data),
           map_option (\<lambda>_. to_read) bytes_read)"
  using assms(1,2,4) unfolding MemSource_Read_def Let_def assms(3) [symmetric]
  by simp

lemma MemSource_Read_in_range:
  assumes S: "length m_data < 2 ^ 63" and off0: "0 \<le> sint off"
    and inr: "sint off < int (length m_data)" and n: "0 \<le> sint n"
  shows "MemSource_Read m_data off n bytes_read =
     Some (Success,
           take (min (nat (sint n)) (length m_data - nat (sint off)))
             (drop (nat (sint off)) m_data),
           map_option (\<lambda>_. of_nat (min (nat (sint n)) (length m_data - nat (sint off))))
             bytes_read)"
proof -
  define avail :: s64 where "avail = of_nat (length m_data) - off"
  have av: "sint avail = int (length m_data) - sint off"
    unfolding avail_def using sint_avail [OF S off0] by simp
  have uo: "unat off = nat (sint off)" using off0 by (simp add: unat_nonneg)
  have avpos: "\<not> sint avail \<le> 0" using av inr by simp
  have neg: "\<not> sint off < 0" using off0 by simp
  define to_read :: s64 where "to_read = (if sint avail < sint n then avail else n)"
  have tr: "sint to_read = min (sint n) (int (length m_data) - sint off)"
    unfolding to_read_def using av by (simp add: min_def)
  have tr0: "0 \<le> sint to_read" using tr n inr by simp
  have ut: "unat to_read = min (nat (sint n)) (length m_data - nat (sint off))"
  proof -
    have "unat to_read = nat (min (sint n) (int (length m_data) - sint off))"
      using unat_nonneg [OF tr0] tr by simp
    also have "\<dots> = min (nat (sint n)) (length m_data - nat (sint off))"
      using n inr off0 by linarith
    finally show ?thesis .
  qed
  have le: "unat off + unat to_read \<le> length m_data"
    unfolding ut uo using inr off0 by linarith
  have "MemSource_Read m_data off n bytes_read =
     Some (Success, take (unat to_read) (drop (unat off) m_data),
           map_option (\<lambda>_. to_read) bytes_read)"
    by (rule MemSource_Read_unfold [OF neg avpos [unfolded avail_def]
          to_read_def [unfolded avail_def] le])
  moreover have "to_read = of_nat (unat to_read)" by simp
  ultimately show ?thesis
    unfolding ut uo by simp
qed

lemma MemSource_Read_past_end:
  assumes S: "length m_data < 2 ^ 63" and past: "int (length m_data) \<le> sint off"
  shows "MemSource_Read m_data off n bytes_read =
     Some (Success, [], map_option (\<lambda>_. 0) bytes_read)"
proof -
  have off0: "0 \<le> sint off" using past by simp
  have "sint ((of_nat (length m_data) :: s64) - off) \<le> 0"
    using sint_avail [OF S off0] past by simp
  then show ?thesis
    using off0 unfolding MemSource_Read_def Let_def by simp
qed

text \<open>
  Claim C8, as stated, for every requested length: at a negative length the function takes
  the length itself as the number of bytes to copy, and \<^verbatim>\<open>memcpy\<close> is asked for
  \<open>2^64 - 1\<close> bytes of a one-byte span.
\<close>

theorem MemSource_Read_negative_length:
  "MemSource_Read [1] 0 (- 1) (Some 0) = None"
  by (simp add: MemSource_Read_def Let_def unsigned_minus_1_eq_mask mask_eq_exp_minus_1)

text \<open>
  Claim C8, amended. For a span of \<open>S\<close> bytes, every offset \<open>off\<close>, every requested length
  \<open>n\<close> and every \<^verbatim>\<open>bytes_read\<close> pointer, null (\<open>None\<close>) or not: with \<open>off < 0\<close>, or with
  \<open>off \<ge> S\<close> (\<open>S < 2^63\<close>, so that the cast of the size to \<^verbatim>\<open>s64\<close> keeps it),
  \<^verbatim>\<open>MemSource::Read\<close> returns success, stores nothing and reports zero bytes, whatever
  \<open>n\<close> is; with \<open>0 \<le> off < S\<close> and \<open>n \<ge> 0\<close> it returns success, stores the
  \<open>min n (S - off)\<close> bytes from position \<open>off\<close> and reports that count. The count is
  reported through the pointer when it is not null.
\<close>

theorem MemSource_Read_clamps:
  "(sint off < 0 \<longrightarrow>
      MemSource_Read m_data off n bytes_read =
        Some (Success, [], map_option (\<lambda>_. 0) bytes_read))
   \<and> (length m_data < 2 ^ 63 \<and> int (length m_data) \<le> sint off \<longrightarrow>
      MemSource_Read m_data off n bytes_read =
        Some (Success, [], map_option (\<lambda>_. 0) bytes_read))
   \<and> (length m_data < 2 ^ 63 \<and> 0 \<le> sint off \<and> sint off < int (length m_data)
        \<and> 0 \<le> sint n \<longrightarrow>
      MemSource_Read m_data off n bytes_read =
        Some (Success,
              take (min (nat (sint n)) (length m_data - nat (sint off)))
                (drop (nat (sint off)) m_data),
              map_option (\<lambda>_. of_nat (min (nat (sint n)) (length m_data - nat (sint off))))
                bytes_read))"
proof -
  have a: "sint off < 0 \<longrightarrow>
      MemSource_Read m_data off n bytes_read =
        Some (Success, [], map_option (\<lambda>_. 0) bytes_read)"
    by (simp add: MemSource_Read_def)
  show ?thesis
    using a MemSource_Read_past_end [of m_data off n bytes_read]
      MemSource_Read_in_range [of m_data off n bytes_read]
    by blast
qed

text \<open>
  On the span \<open>[10, 20, 30]\<close>: five bytes asked at offset 1 give the two that are left; one
  byte asked at offset 1 with a null pointer is stored and not reported; at offset 3 (the
  end) and at offset \<open>-1\<close> nothing is stored and zero is reported, also for the length
  \<open>-1\<close>.
\<close>

theorem MemSource_Read_clamps_witness:
  "MemSource_Read [10, 20, 30] 1 5 (Some 99) = Some (Success, [20, 30], Some 2)
   \<and> MemSource_Read [10, 20, 30] 1 1 None = Some (Success, [20], None)
   \<and> MemSource_Read [10, 20, 30] 3 (- 1) (Some 99) = Some (Success, [], Some 0)
   \<and> MemSource_Read [10, 20, 30] (- 1) (- 1) (Some 99) = Some (Success, [], Some 0)"
proof -
  note t = MemSource_Read_clamps [where m_data = "[10, 20, 30]"]
  have a: "MemSource_Read [10, 20, 30] 1 5 (Some 99) = Some (Success, [20, 30], Some 2)"
    using t [where off = 1 and n = 5 and bytes_read = "Some 99", THEN conjunct2, THEN conjunct2]
    by simp
  have b: "MemSource_Read [10, 20, 30] 1 1 None = Some (Success, [20], None)"
    using t [where off = 1 and n = 1 and bytes_read = None, THEN conjunct2, THEN conjunct2]
    by simp
  have c: "MemSource_Read [10, 20, 30] 3 (- 1) (Some 99) = Some (Success, [], Some 0)"
    using t [where off = 3 and n = "- 1" and bytes_read = "Some 99", THEN conjunct2, THEN conjunct1]
    by simp
  have d: "MemSource_Read [10, 20, 30] (- 1) (- 1) (Some 99) = Some (Success, [], Some 0)"
    using t [where off = "- 1" and n = "- 1" and bytes_read = "Some 99", THEN conjunct1]
    by simp
  show ?thesis by (intro conjI a b c d)
qed

subsection \<open>File::Read on the POSIX backend\<close>

lemma File_Read_stdio_unfold:
  assumes "m_fs f = Some fs" "\<not> IsNative fs"
  shows "File_Read e f off n opt s =
    (let s1 = (if m_stdio_off f \<noteq> off
               then snd (c_fseek (io e) (m_stdio f) off SEEK_SET s) else s);
         data = fst (c_fread (io e) (m_stdio f) n s1);
         s2 = snd (c_fread (io e) (m_stdio f) n s1);
         bytes_read = (of_nat (length data) :: u64)
     in if bytes_read < n \<and> \<not> c_feof (io e) (m_stdio f) s2 \<and> c_ferror (io e) (m_stdio f) s2
        then (Result_FsUnknownStdioError, data, bytes_read, f\<lparr>m_stdio_off := off\<rparr>, s2)
        else (Success, data, bytes_read, f\<lparr>m_stdio_off := off + bytes_read\<rparr>, s2))"
  using assms
  by (cases "m_stdio_off f = off") (simp_all add: File_Read_def Let_def split: prod.splits)

text \<open>
  Claim C3. For a file handle of the POSIX backend (its \<open>m_fs\<close> is set and is not native),
  every offset and every requested length \<open>n\<close>: \<^verbatim>\<open>File::Read\<close> stores what \<^verbatim>\<open>fread\<close>
  returned and reports its count; the result is the stdio error exactly when the count is
  below \<open>n\<close>, the stream is not at end-of-file and its error flag is set, and success in
  every other case, so a short read at end-of-file is a success with
  \<open>bytes_read < n\<close>. The tracked offset advances by \<open>bytes_read\<close> on success.
\<close>

theorem File_Read_short_read:
  assumes "m_fs f = Some fs" and "\<not> IsNative fs"
    and "File_Read e f off n opt s = (rc, buf, bytes_read, f', s')"
  shows "rc = (if bytes_read < n \<and> \<not> c_feof (io e) (m_stdio f) s'
                  \<and> c_ferror (io e) (m_stdio f) s'
               then Result_FsUnknownStdioError else Success)
       \<and> bytes_read = of_nat (length buf)
       \<and> (buf, s') = c_fread (io e) (m_stdio f) n
            (if m_stdio_off f \<noteq> off
             then snd (c_fseek (io e) (m_stdio f) off SEEK_SET s) else s)
       \<and> m_stdio_off f' = (if rc = Success then off + bytes_read else off)"
  using assms(3) unfolding File_Read_stdio_unfold [OF assms(1,2)] Let_def
  by (auto split: if_splits)

theorem File_Read_short_read_witness:
  "File_Read (ok_env\<lparr>io := ok_io\<lparr>c_fread := (\<lambda>f n s. ([1, 2], s))\<rparr>\<rparr>)
      (File_new\<lparr>m_fs := Some FsStdio, m_stdio := 1\<rparr>) 0 4 0 (0 :: nat)
     = (Success, [1, 2], 2,
        File_new\<lparr>m_fs := Some FsStdio, m_stdio := 1, m_stdio_off := 2\<rparr>, 0)
   \<and> (2 :: u64) < 4
   \<and> c_feof (io (ok_env\<lparr>io := ok_io\<lparr>c_fread := (\<lambda>f n s. ([1, 2], s))\<rparr>\<rparr>)) 1 (0 :: nat)"
proof -
  let ?e = "ok_env\<lparr>io := ok_io\<lparr>c_fread := (\<lambda>f n s. ([1, 2], s))\<rparr>\<rparr> :: nat env"
  let ?f = "File_new\<lparr>m_fs := Some FsStdio, m_stdio := 1\<rparr>"
  have a: "m_fs ?f = Some FsStdio" by simp
  have b: "\<not> IsNative FsStdio" by (simp add: FsStdio_def)
  have r: "File_Read ?e ?f 0 4 0 0 =
      (Success, [1, 2], 2, File_new\<lparr>m_fs := Some FsStdio, m_stdio := 1, m_stdio_off := 2\<rparr>, 0)"
    by (simp add: File_Read_def File_new_def FsStdio_def ok_env_def ok_io_def)
  from File_Read_short_read [OF a b r] r show ?thesis
    by (simp add: ok_env_def ok_io_def)
qed

subsection \<open>Dir::Read on the POSIX backend\<close>

text \<open>
  Claim C5 asks that an entry whose type is unknown be resolved by a metadata lookup
  and left out only when the lookup fails. \<^verbatim>\<open>Dir::Read\<close> makes no lookup (the function
  takes none): a stream holding one entry of type \<^verbatim>\<open>DT_UNKNOWN\<close> yields that entry
  tagged as a file, whatever it is, and \<^verbatim>\<open>Dir::ReadAll\<close> leaves it out.
\<close>

theorem Dir_Read_unknown_type:
  "Dir_Read (\<lambda>h n. (Success, []))
      \<lparr>d_fs = Some FsStdio, d_mode = 3, d_native = 0,
       d_stdio = [\<lparr>d_name = ''sub'', d_type = DT_UNKNOWN\<rparr>]\<rparr> 0 16
    = (Success, 1, [\<lparr>name = ''sub'', type = FsDirEntryType_File\<rparr>],
       \<lparr>d_fs = Some FsStdio, d_mode = 3, d_native = 0, d_stdio = []\<rparr>)
   \<and> Dir_ReadAll_loop 3 [\<lparr>d_name = ''sub'', d_type = DT_UNKNOWN\<rparr>] = []"
  by (simp add: Dir_Read_def FsStdio_def DT_UNKNOWN_def DT_DIR_def DT_REG_def Let_def)

subsection \<open>The hash engine\<close>

lemma Transfer_loop_preserves:
  assumes rd: "\<And>a b x. g (snd (snd (snd (rd a b x)))) = g x"
    and wr: "\<And>d a b x. g (snd (wr d a b x)) = g x"
  shows "g (snd (Transfer_loop pbox len rd wr off k x)) = g x"
  using rd wr
proof (induction pbox len rd wr off k x rule: Transfer_loop.induct)
  case (1 pbox len rd wr off k x)
  show ?case
  proof (cases "len \<le> off \<or> ShouldExit pbox k")
    case True
    then show ?thesis by (auto simp: Transfer_loop.simps)
  next
    case False
    obtain rc data n x1 where
      r: "rd (of_int off) (of_int (min (int (chunk_size pbox)) (len - off))) x = (rc, data, n, x1)"
      by (metis prod_cases4)
    have g1: "g x1 = g x"
      using "1.prems"(1) [of "of_int off" "of_int (min (int (chunk_size pbox)) (len - off))" x]
      unfolding r by simp
    obtain rc2 x2 where w: "wr data (of_int off) (of_int (uint n)) x1 = (rc2, x2)"
      by (metis prod.exhaust)
    have g2: "g x2 = g x1"
      using "1.prems"(2) [of data "of_int off" "of_int (uint n)" x1]
      unfolding w by simp
    show ?thesis
    proof (cases "R_FAILED rc \<or> n = 0 \<or> R_FAILED rc2")
      case True
      then show ?thesis using False r w g1 g2
        by (subst Transfer_loop.simps) auto
    next
      case c: False
      have "g (snd (Transfer_loop pbox len rd wr (off + uint n) (Suc k) x2)) = g x2"
        using "1.IH" [OF _ _ r [symmetric] refl refl _ _ w [symmetric] _ "1.prems"] False c
        by auto
      then show ?thesis using False r w g1 g2 c
        by (subst Transfer_loop.simps) auto
    qed
  qed
qed

text \<open>The driver of the specification reaches the digest through \<^verbatim>\<open>Update\<close> only.\<close>

lemma Transfer_spec_counter:
  "Transfer_spec pbox sz (read_lambda source) (write_lambda (counting hash)) (s1, (h, k))
     = (rcT, (s2, (h2, k2))) \<Longrightarrow> k2 = k"
  using Transfer_loop_preserves [of "\<lambda>x. snd (snd x)" "read_lambda source"
      "write_lambda (counting hash)" pbox "sint sz" 0 0 "(s1, (h, k))"]
  by (simp add: Transfer_spec_def read_lambda_def write_lambda_def counting_def
      split: prod.splits)

text \<open>
  Claim C7. For every hash computation (\<^verbatim>\<open>Hash\<close> by type is \<^verbatim>\<open>Hash\<close> on the fresh digest
  object of that type), with any transfer driver: \<^verbatim>\<open>Hash\<close> calls \<^verbatim>\<open>Get\<close>
  once, after the transfer has returned success, and the string it returns is the output
  (\<open>k\<close> counts the calls of \<^verbatim>\<open>Get\<close>: it is one more than the transfer left it); when
  \<^verbatim>\<open>Size\<close> or the transfer fails (a cancelled transfer fails with its cancellation error),
  \<^verbatim>\<open>Hash\<close> returns that error, does not call \<^verbatim>\<open>Get\<close> and leaves the output string as it
  was.
\<close>

theorem Hash_finalize_once:
  assumes "Size source s = (rc0, sz, s1)"
    and "Transfer pbox sz (read_lambda source) (write_lambda (counting hash)) (s1, (h, k))
           = (rcT, (s2, (h2, k2)))"
    and "Hash Transfer pbox (counting hash) source out (s, (h, k)) = (rc, out', (s', (h', k')))"
  shows "(R_FAILED rc0 \<longrightarrow> rc = rc0 \<and> out' = out \<and> k' = k \<and> h' = h)
       \<and> (\<not> R_FAILED rc0 \<and> R_FAILED rcT \<longrightarrow> rc = rcT \<and> out' = out \<and> k' = k2 \<and> h' = h2)
       \<and> (\<not> R_FAILED rc0 \<and> \<not> R_FAILED rcT \<longrightarrow>
            rc = Success \<and> out' = fst (Get hash h2) \<and> k' = Suc k2 \<and> h' = snd (Get hash h2))
       \<and> Hash_type Transfer pbox make_unique ty source out s =
            Hash Transfer pbox (fst (make_unique ty)) source out (s, snd (make_unique ty))"
proof -
  have ty: "Hash_type Transfer pbox make_unique ty source out s =
      Hash Transfer pbox (fst (make_unique ty)) source out (s, snd (make_unique ty))"
    by (cases ty) (simp_all add: Hash_type_def)
  show ?thesis
    using assms ty by (auto simp: Hash_def counting_def split: if_splits)
qed

text \<open>
  A run with the driver of the specification on a source of four bytes read in chunks of
  two: cancelled after the first chunk, and not cancelled.
\<close>

theorem Hash_finalize_once_witness:
  "Hash Transfer_spec \<lparr>chunk_size = 2, ShouldExit = (\<lambda>k. 1 \<le> k)\<rparr>
        (counting \<lparr>Update = (\<lambda>d n h. h + length d), Get = (\<lambda>h. (''digest'', h))\<rparr>)
        \<lparr>Size = (\<lambda>s. (Success, 4, s)), Read = (\<lambda>off sz s. (Success, [7, 7], 2, s))\<rparr>
        ''old'' ((), (0 :: nat, 0)) = (Result_TransferCancelled, ''old'', ((), (2, 0)))
   \<and> Hash Transfer_spec \<lparr>chunk_size = 2, ShouldExit = (\<lambda>k. False)\<rparr>
        (counting \<lparr>Update = (\<lambda>d n h. h + length d), Get = (\<lambda>h. (''digest'', h))\<rparr>)
        \<lparr>Size = (\<lambda>s. (Success, 4, s)), Read = (\<lambda>off sz s. (Success, [7, 7], 2, s))\<rparr>
        ''old'' ((), (0 :: nat, 0)) = (Success, ''digest'', ((), (4, 1)))"
proof -
  let ?src = "\<lparr>Size = (\<lambda>s :: unit. (Success, 4, s)),
               Read = (\<lambda>off sz s. (Success, [7, 7], 2, s))\<rparr>"
  let ?hash = "\<lparr>Update = (\<lambda>d n (h :: nat). h + length d), Get = (\<lambda>h. (''digest'', h))\<rparr>"
  let ?stop = "\<lparr>chunk_size = 2, ShouldExit = (\<lambda>k. 1 \<le> k)\<rparr>"
  let ?go = "\<lparr>chunk_size = 2, ShouldExit = (\<lambda>k. False)\<rparr>"
  have sz: "Size ?src () = (Success, 4, ())" by simp
  have t1: "Transfer_spec ?stop 4 (read_lambda ?src) (write_lambda (counting ?hash)) ((), (0, 0))
      = (Result_TransferCancelled, ((), (2, 0)))"
    by (simp add: Transfer_spec_def Transfer_loop.simps read_lambda_def write_lambda_def
        counting_def R_FAILED_def)
  have t2: "Transfer_spec ?go 4 (read_lambda ?src) (write_lambda (counting ?hash)) ((), (0, 0))
      = (Success, ((), (4, 0)))"
    by (simp add: Transfer_spec_def Transfer_loop.simps read_lambda_def write_lambda_def
        counting_def R_FAILED_def)
  obtain rc1 o1 s1 h1 k1 where
    r1: "Hash Transfer_spec ?stop (counting ?hash) ?src ''old'' ((), (0, 0)) = (rc1, o1, (s1, (h1, k1)))"
    by (metis prod_cases5)
  obtain rc2 o2 s2 h2 k2 where
    r2: "Hash Transfer_spec ?go (counting ?hash) ?src ''old'' ((), (0, 0)) = (rc2, o2, (s2, (h2, k2)))"
    by (metis prod_cases5)
  from Hash_finalize_once [OF sz t1 r1] Hash_finalize_once [OF sz t2 r2]
  show ?thesis unfolding r1 r2 by (simp add: R_FAILED_def)
qed

subsection \<open>The policy and the functions that consult it\<close>

lemma is_read_only_iff: "is_read_only p = (is_read_only_root p \<or> is_read_only_file p)"
  by (simp add: is_read_only_def)

lemma root_implies_read_only: "is_read_only_root p \<Longrightarrow> is_read_only p"
  by (simp add: is_read_only_def)

lemma CreateDirectory_on_guard:
  "CreateDirectory_on e fs p False s =
     (if is_read_only_root p then (Result_FsReadOnly, s) else CreateDirectory_on e fs p True s)"
  by (simp add: CreateDirectory_on_def CreateDirectory_native_def CreateDirectory_stdio_def)

lemma loop_no_policy:
  "\<forall>q \<in> set (loop_paths dirs path). \<not> is_read_only_root q \<Longrightarrow>
   CreateDirectoryRecursively_loop e fs False dirs path s
     = CreateDirectoryRecursively_loop e fs True dirs path s"
proof (induction dirs arbitrary: path s)
  case Nil
  show ?case by simp
next
  case (Cons dir dirs)
  show ?case
  proof (cases "dir = []")
    case True
    then show ?thesis using Cons by simp
  next
    case False
    then have q: "\<not> is_read_only_root (path @ dir)"
      and rest: "\<forall>q \<in> set (loop_paths dirs (path @ dir @ ''/'')). \<not> is_read_only_root q"
      using Cons.prems by simp_all
    show ?thesis
      using False q Cons.IH [OF rest]
      by (auto simp: strcat_buf_def CreateDirectory_on_guard split: prod.splits)
  qed
qed

lemma CDR_no_policy:
  assumes "\<forall>q \<in> set (created_paths p). \<not> is_read_only_root q"
  shows "CreateDirectoryRecursively_native e fs p False s
     = CreateDirectoryRecursively_native e fs p True s"
proof -
  obtain a b where rm: "root_marker p = (a, b)" by (cases "root_marker p")
  have p: "\<not> is_read_only_root p" using assms by (simp add: created_paths_def)
  have l: "\<forall>q \<in> set (loop_paths (split_view CHR ''/'' b) a). \<not> is_read_only_root q"
    using assms by (simp add: created_paths_def rm)
  show ?thesis
    using p loop_no_policy [OF l, of e fs]
    by (simp add: CreateDirectoryRecursively_native_def CreateDirectory_on_guard rm
        split: prod.splits)
qed


lemma WithPath_no_policy:
  assumes "\<forall>q \<in> set (created_paths_with_path p). \<not> is_read_only_root q"
  shows "CreateDirectoryRecursivelyWithPath_native e fs p False s
     = CreateDirectoryRecursivelyWithPath_native e fs p True s"
proof (cases "strrchr p CHR ''/''")
  case None
  then show ?thesis using assms
    by (simp add: CreateDirectoryRecursivelyWithPath_native_def created_paths_with_path_def)
next
  case (Some i)
  have p: "\<not> is_read_only_root p" using assms by (simp add: created_paths_with_path_def)
  have "\<forall>q \<in> set (created_paths (snprintf_s FS_MAX_PATH (take i p))). \<not> is_read_only_root q"
    using assms Some by (simp add: created_paths_with_path_def)
  from CDR_no_policy [OF this, of e fs s] p Some show ?thesis
    by (simp add: CreateDirectoryRecursivelyWithPath_native_def)
qed

text \<open>
  Claim C2. The protection predicate is the disjunction of two matches: \<open>is_read_only_root\<close>
  holds exactly for the paths that start with an entry of the table of protected
  folders, \<open>is_read_only_file\<close> exactly for the entries of the table of protected paths.
  The creation functions look at the prefix table only: without override each of them
  returns the read-only error, touching nothing, for a path under a protected folder, and
  otherwise does what it does with override (for the recursive ones: when none of the
  paths they hand to \<^verbatim>\<open>CreateDirectory\<close> is under a protected folder), so an entry of the
  exact table is not refused. The deletion and rename functions look at both tables:
  without override they return the read-only error for a protected path (source or
  destination of a rename) and otherwise do what they do with override.
\<close>

theorem policy_modes:
  "is_read_only_root p = (\<exists>d \<in> set READONLY_ROOT_FOLDERS. prefix d p)
   \<and> is_read_only_file p = (p \<in> set READONLY_FILES)
   \<and> is_read_only p = (is_read_only_root p \<or> is_read_only_file p)
   \<and> CreateFile_native e fs p sz opt False s =
       (if is_read_only_root p then (Result_FsReadOnly, s)
        else CreateFile_native e fs p sz opt True s)
   \<and> CreateFile_stdio e p sz opt False s =
       (if is_read_only_root p then (Result_FsReadOnly, s)
        else CreateFile_stdio e p sz opt True s)
   \<and> CreateDirectory_native e fs p False s =
       (if is_read_only_root p then (Result_FsReadOnly, s)
        else CreateDirectory_native e fs p True s)
   \<and> CreateDirectory_stdio e p False s =
       (if is_read_only_root p then (Result_FsReadOnly, s)
        else CreateDirectory_stdio e p True s)
   \<and> (is_read_only_root p \<longrightarrow>
         CreateDirectoryRecursively_native e fs p False s = Some (Result_FsReadOnly, s)
         \<and> CreateDirectoryRecursively_stdio e p False s = Some (Result_FsReadOnly, s)
         \<and> CreateDirectoryRecursivelyWithPath_native e fs p False s = Some (Result_FsReadOnly, s)
         \<and> CreateDirectoryRecursivelyWithPath_stdio e p False s = Some (Result_FsReadOnly, s))
   \<and> ((\<forall>q \<in> set (created_paths p). \<not> is_read_only_root q) \<longrightarrow>
         CreateDirectoryRecursively_native e fs p False s
           = CreateDirectoryRecursively_native e fs p True s
         \<and> CreateDirectoryRecursively_stdio e p False s
           = CreateDirectoryRecursively_stdio e p True s)
   \<and> ((\<forall>q \<in> set (created_paths_with_path p). \<not> is_read_only_root q) \<longrightarrow>
         CreateDirectoryRecursivelyWithPath_native e fs p False s
           = CreateDirectoryRecursivelyWithPath_native e fs p True s
         \<and> CreateDirectoryRecursivelyWithPath_stdio e p False s
           = CreateDirectoryRecursivelyWithPath_stdio e p True s)
   \<and> DeleteFile_native e fs p False s =
       (if is_read_only p then (Result_FsReadOnly, s) else DeleteFile_native e fs p True s)
   \<and> DeleteFile_stdio e p False s =
       (if is_read_only p then (Result_FsReadOnly, s) else DeleteFile_stdio e p True s)
   \<and> DeleteDirectory_native e fs p False s =
       (if is_read_only p then (Result_FsReadOnly, s) else DeleteDirectory_native e fs p True s)
   \<and> DeleteDirectory_stdio e p False s =
       (if is_read_only p then (Result_FsReadOnly, s) else DeleteDirectory_stdio e p True s)
   \<and> DeleteDirectoryRecursively_native e fs p False s =
       (if is_read_only p then (Result_FsReadOnly, s)
        else DeleteDirectoryRecursively_native e fs p True s)
   \<and> DeleteDirectoryRecursively_stdio fuel e p False s =
       (if is_read_only p then Some (Result_FsReadOnly, s)
        else DeleteDirectoryRecursively_stdio fuel e p True s)
   \<and> RenameFile_native e fs a b False s =
       (if is_read_only a \<or> is_read_only b then (Result_FsReadOnly, s)
        else RenameFile_native e fs a b True s)
   \<and> RenameFile_stdio e a b False s =
       (if is_read_only a \<or> is_read_only b then (Result_FsReadOnly, s)
        else RenameFile_stdio e a b True s)
   \<and> RenameDirectory_native e fs a b False s =
       (if is_read_only a \<or> is_read_only b then (Result_FsReadOnly, s)
        else RenameDirectory_native e fs a b True s)
   \<and> RenameDirectory_stdio e a b False s =
       (if is_read_only a \<or> is_read_only b then (Result_FsReadOnly, s)
        else RenameDirectory_stdio e a b True s)"
proof -
  have preds: "is_read_only_root p = (\<exists>d \<in> set READONLY_ROOT_FOLDERS. prefix d p)"
    "is_read_only_file p = (p \<in> set READONLY_FILES)"
    "is_read_only p = (is_read_only_root p \<or> is_read_only_file p)"
    by (simp_all add: is_read_only_root_def is_read_only_file_def root_loop_iff file_loop_iff
        is_read_only_iff)
  have create: "CreateFile_native e fs p sz opt False s =
       (if is_read_only_root p then (Result_FsReadOnly, s)
        else CreateFile_native e fs p sz opt True s)"
    "CreateFile_stdio e p sz opt False s =
       (if is_read_only_root p then (Result_FsReadOnly, s)
        else CreateFile_stdio e p sz opt True s)"
    "CreateDirectory_native e fs p False s =
       (if is_read_only_root p then (Result_FsReadOnly, s)
        else CreateDirectory_native e fs p True s)"
    "CreateDirectory_stdio e p False s =
       (if is_read_only_root p then (Result_FsReadOnly, s)
        else CreateDirectory_stdio e p True s)"
    by (simp_all add: CreateFile_native_def CreateFile_stdio_def CreateDirectory_native_def
        CreateDirectory_stdio_def)
  have rec_guard: "is_read_only_root p \<longrightarrow>
         CreateDirectoryRecursively_native e fs p False s = Some (Result_FsReadOnly, s)
         \<and> CreateDirectoryRecursively_stdio e p False s = Some (Result_FsReadOnly, s)
         \<and> CreateDirectoryRecursivelyWithPath_native e fs p False s = Some (Result_FsReadOnly, s)
         \<and> CreateDirectoryRecursivelyWithPath_stdio e p False s = Some (Result_FsReadOnly, s)"
    by (simp add: CreateDirectoryRecursively_native_def CreateDirectoryRecursively_stdio_def
        CreateDirectoryRecursivelyWithPath_native_def
        CreateDirectoryRecursivelyWithPath_stdio_def)
  have rec1: "(\<forall>q \<in> set (created_paths p). \<not> is_read_only_root q) \<longrightarrow>
         CreateDirectoryRecursively_native e fs p False s
           = CreateDirectoryRecursively_native e fs p True s
         \<and> CreateDirectoryRecursively_stdio e p False s
           = CreateDirectoryRecursively_stdio e p True s"
  proof
    assume h: "\<forall>q \<in> set (created_paths p). \<not> is_read_only_root q"
    then have "\<not> is_read_only_root p" by (simp add: created_paths_def)
    then show "CreateDirectoryRecursively_native e fs p False s
           = CreateDirectoryRecursively_native e fs p True s
         \<and> CreateDirectoryRecursively_stdio e p False s
           = CreateDirectoryRecursively_stdio e p True s"
      using CDR_no_policy [OF h, of e fs s] CDR_no_policy [OF h, of e 0 s]
      by (simp add: CreateDirectoryRecursively_stdio_def)
  qed
  have rec2: "(\<forall>q \<in> set (created_paths_with_path p). \<not> is_read_only_root q) \<longrightarrow>
         CreateDirectoryRecursivelyWithPath_native e fs p False s
           = CreateDirectoryRecursivelyWithPath_native e fs p True s
         \<and> CreateDirectoryRecursivelyWithPath_stdio e p False s
           = CreateDirectoryRecursivelyWithPath_stdio e p True s"
  proof
    assume h: "\<forall>q \<in> set (created_paths_with_path p). \<not> is_read_only_root q"
    then have "\<not> is_read_only_root p" by (simp add: created_paths_with_path_def)
    then show "CreateDirectoryRecursivelyWithPath_native e fs p False s
           = CreateDirectoryRecursivelyWithPath_native e fs p True s
         \<and> CreateDirectoryRecursivelyWithPath_stdio e p False s
           = CreateDirectoryRecursivelyWithPath_stdio e p True s"
      using WithPath_no_policy [OF h, of e fs s] WithPath_no_policy [OF h, of e 0 s]
      by (simp add: CreateDirectoryRecursivelyWithPath_stdio_def)
  qed
  have del: "DeleteFile_native e fs p False s =
       (if is_read_only p then (Result_FsReadOnly, s) else DeleteFile_native e fs p True s)"
    "DeleteFile_stdio e p False s =
       (if is_read_only p then (Result_FsReadOnly, s) else DeleteFile_stdio e p True s)"
    "DeleteDirectory_native e fs p False s =
       (if is_read_only p then (Result_FsReadOnly, s) else DeleteDirectory_native e fs p True s)"
    "DeleteDirectory_stdio e p False s =
       (if is_read_only p then (Result_FsReadOnly, s) else DeleteDirectory_stdio e p True s)"
    "DeleteDirectoryRecursively_native e fs p False s =
       (if is_read_only p then (Result_FsReadOnly, s)
        else DeleteDirectoryRecursively_native e fs p True s)"
    "DeleteDirectoryRecursively_stdio fuel e p False s =
       (if is_read_only p then Some (Result_FsReadOnly, s)
        else DeleteDirectoryRecursively_stdio fuel e p True s)"
    by (simp_all add: DeleteFile_native_def DeleteFile_stdio_def DeleteDirectory_native_def
        DeleteDirectory_stdio_def DeleteDirectoryRecursively_native_def
        DeleteDirectoryRecursively_stdio_def)
  have ren: "RenameFile_native e fs a b False s =
       (if is_read_only a \<or> is_read_only b then (Result_FsReadOnly, s)
        else RenameFile_native e fs a b True s)"
    "RenameFile_stdio e a b False s =
       (if is_read_only a \<or> is_read_only b then (Result_FsReadOnly, s)
        else RenameFile_stdio e a b True s)"
    "RenameDirectory_native e fs a b False s =
       (if is_read_only a \<or> is_read_only b then (Result_FsReadOnly, s)
        else RenameDirectory_native e fs a b True s)"
    "RenameDirectory_stdio e a b False s =
       (if is_read_only a \<or> is_read_only b then (Result_FsReadOnly, s)
        else RenameDirectory_stdio e a b True s)"
    by (simp_all add: RenameFile_native_def RenameFile_stdio_def RenameDirectory_native_def
        RenameDirectory_stdio_def)
  show ?thesis
    by (intro conjI preds create rec_guard rec1 rec2 del ren)
qed


text \<open>The path \<^verbatim>\<open>/switch\<close> is in the exact table only; \<^verbatim>\<open>/backup/x\<close> lies under a protected folder.\<close>

lemma ex_switch: "is_read_only_file ''/switch''" "\<not> is_read_only_root ''/switch''"
   "is_read_only ''/switch''" "is_read_only_root ''/backup/x''"
  by (simp_all add: is_read_only_def is_read_only_root_def is_read_only_file_def
      READONLY_ROOT_FOLDERS_def READONLY_FILES_def)

lemma ex_paths: "created_paths ''/switch'' = [''/switch'', ''/switch'']"
  by (simp add: created_paths_def root_marker_def)

theorem policy_modes_witness:
  "is_read_only_file ''/switch'' \<and> \<not> is_read_only_root ''/switch''
   \<and> is_read_only ''/switch''
   \<and> created_paths ''/switch'' = [''/switch'', ''/switch'']
   \<and> CreateDirectory_stdio ok_env ''/switch'' False (0 :: nat)
        = CreateDirectory_stdio ok_env ''/switch'' True 0
   \<and> CreateDirectoryRecursively_native ok_env 1 ''/switch'' False (0 :: nat)
        = CreateDirectoryRecursively_native ok_env 1 ''/switch'' True 0
   \<and> DeleteDirectory_stdio ok_env ''/switch'' False (0 :: nat) = (Result_FsReadOnly, 0)
   \<and> RenameFile_native ok_env 1 ''/x'' ''/switch'' False (0 :: nat) = (Result_FsReadOnly, 0)"
  using policy_modes [where p = "''/switch''" and e = "ok_env :: nat env" and s = 0
      and fs = 1 and a = "''/x''" and b = "''/switch''"]
  by (simp add: ex_switch ex_paths)

subsection \<open>The read-only guard of the mutating operations\<close>



subsection \<open>Whole-file copy\<close>

text \<open>The results the functions under a copy can return come from the environment.\<close>

lemma never_read_onlyD:
  assumes "never_read_only e"
  shows "fst (fsFsCreateFile (nx e) fs p sz opt s) \<noteq> Result_FsReadOnly"
    "fst (fsFsOpenFile (nx e) fs p m s) \<noteq> Result_FsReadOnly"
    "fst (fsFileRead (nx e) h off sz2 opt s) \<noteq> Result_FsReadOnly"
    "fst (fsFileWrite (nx e) h off buf opt s) \<noteq> Result_FsReadOnly"
    "fst (fsFileSetSize (nx e) h sz3 s) \<noteq> Result_FsReadOnly"
    "fst (fsFileGetSize (nx e) h s) \<noteq> Result_FsReadOnly"
    "fsdevGetLastResult (px e) s \<noteq> Result_FsReadOnly"
  using assms by (simp_all add: never_read_only_def)

lemma stdio_failure_not_ro: "never_read_only e \<Longrightarrow> stdio_failure e s \<noteq> Result_FsReadOnly"
  by (simp add: stdio_failure_def Let_def never_read_onlyD)

lemma OpenFile_not_ro:
  "never_read_only e \<Longrightarrow> fst (OpenFile e fs p m f s) \<noteq> Result_FsReadOnly"
  using never_read_onlyD(2) [of e "fs_session fs" p m s]
  by (auto simp: OpenFile_def Let_def split: prod.splits if_splits)

lemma File_GetSize_not_ro:
  "never_read_only e \<Longrightarrow> fst (File_GetSize e f out0 s) \<noteq> Result_FsReadOnly"
  using never_read_onlyD(6) [of e "m_native f" s]
  by (auto simp: File_GetSize_def split: option.splits prod.splits if_splits)

lemma File_SetSize_not_ro:
  "never_read_only e \<Longrightarrow> fst (File_SetSize e f n s) \<noteq> Result_FsReadOnly"
  using never_read_onlyD(5) [of e "m_native f" n s]
  by (auto simp: File_SetSize_def Let_def split: option.splits prod.splits if_splits)

lemma File_Read_not_ro:
  "never_read_only e \<Longrightarrow> fst (File_Read e f off n opt s) \<noteq> Result_FsReadOnly"
  using never_read_onlyD(3) [of e "m_native f" off n opt s]
  by (auto simp: File_Read_def Let_def split: option.splits prod.splits if_splits)

lemma File_Write_not_ro:
  "never_read_only e \<Longrightarrow> fst (File_Write e f off buf opt s) \<noteq> Result_FsReadOnly"
  using never_read_onlyD(4) [of e "m_native f" off buf opt s]
  by (auto simp: File_Write_def Let_def split: option.splits prod.splits if_splits)

lemma CreateFile_native_not_ro:
  "never_read_only e \<Longrightarrow> ign \<or> \<not> is_read_only_root p \<Longrightarrow>
   fst (CreateFile_native e fs p sz opt ign s) \<noteq> Result_FsReadOnly"
  using never_read_onlyD(1) [of e fs p sz "or opt FsCreateOption_BigFile" s]
    never_read_onlyD(1) [of e fs p sz opt s]
  by (auto simp: CreateFile_native_def commit_after_def Let_def split: prod.splits if_splits)

lemma read_entire_file_native_not_ro:
  assumes "never_read_only e"
  shows "fst (read_entire_file_native e fs src s) \<noteq> Result_FsReadOnly"
proof -
  note a = OpenFile_not_ro [OF assms] File_GetSize_not_ro [OF assms] File_Read_not_ro [OF assms]
  obtain rc f s1 where o: "OpenFile e (FsNative fs True) src FsOpenMode_Read File_new s = (rc, f, s1)"
    by (metis prod_cases3)
  obtain rc2 sz s2 where g: "File_GetSize e f 0 s1 = (rc2, sz, s2)" by (metis prod_cases3)
  obtain rc3 d br f3 s3 where r: "File_Read e f 0 (of_nat (length (replicate (unat sz) (0 :: u8)))) 0 s2 = (rc3, d, br, f3, s3)"
    by (metis prod_cases5)
  have "rc \<noteq> Result_FsReadOnly" "rc2 \<noteq> Result_FsReadOnly" "rc3 \<noteq> Result_FsReadOnly"
    using a(1) [of "FsNative fs True" src FsOpenMode_Read File_new s] a(2) [of f 0 s1]
      a(3) [of f 0 "of_nat (length (replicate (unat sz) (0 :: u8)))" 0 s2]
    unfolding o g r by simp_all
  then show ?thesis
    using o g r
    by (simp add: read_entire_file_native_def Let_def FsNative_def R_FAILED_def)
qed

lemma write_entire_file_native_not_ro:
  assumes "never_read_only e" and "ign \<or> \<not> is_read_only dst"
  shows "fst (write_entire_file_native e fs dst d ign s) \<noteq> Result_FsReadOnly"
proof -
  have root: "ign \<or> \<not> is_read_only_root dst" using assms(2) by (auto simp: is_read_only_def)
  obtain rc s1 where c: "CreateFile_native e fs dst (of_nat (length d)) 0 ign s = (rc, s1)"
    by (metis prod.exhaust)
  obtain rc2 f s2 where o: "OpenFile e (FsNative fs ign) dst FsOpenMode_Write File_new s1 = (rc2, f, s2)"
    by (metis prod_cases3)
  obtain rc3 s3 where z: "File_SetSize e f (of_nat (length d)) s2 = (rc3, s3)"
    by (metis prod.exhaust)
  obtain rc4 f4 s4 where w: "File_Write e f 0 d 0 s3 = (rc4, f4, s4)"
    by (metis prod_cases3)
  have "rc \<noteq> Result_FsReadOnly" "rc2 \<noteq> Result_FsReadOnly" "rc3 \<noteq> Result_FsReadOnly"
      "rc4 \<noteq> Result_FsReadOnly"
    using CreateFile_native_not_ro [OF assms(1) root, of fs "of_nat (length d)" 0 s]
      OpenFile_not_ro [OF assms(1), of "FsNative fs ign" dst FsOpenMode_Write File_new s1]
      File_SetSize_not_ro [OF assms(1), of f "of_nat (length d)" s2]
      File_Write_not_ro [OF assms(1), of f 0 d 0 s3]
    unfolding c o z w by simp_all
  then show ?thesis
    using c o z w assms(2)
    by (simp add: write_entire_file_native_def Let_def FsNative_def R_FAILED_def)
qed

lemma read_entire_file_stdio_not_ro:
  assumes "never_read_only e"
  shows "fst (read_entire_file_stdio e src s) \<noteq> Result_FsReadOnly"
  using stdio_failure_not_ro [OF assms]
  by (auto simp: read_entire_file_stdio_def Let_def split: prod.splits if_splits)

lemma write_entire_file_stdio_not_ro:
  assumes "never_read_only e" and "ign \<or> \<not> is_read_only dst"
  shows "fst (write_entire_file_stdio e dst d ign s) \<noteq> Result_FsReadOnly"
  using stdio_failure_not_ro [OF assms(1)] assms(2)
  by (auto simp: write_entire_file_stdio_def Let_def split: prod.splits if_splits)

text \<open>
  Claim C10. \<^verbatim>\<open>copy_entire_file\<close> applies the policy to the destination only. A protected
  destination without override is refused with the read-only error and the world is
  unchanged, so the source is not read. Otherwise the copy is the read of the source
  followed by the write of the destination, whatever the source, protected or not; and
  in an environment whose calls never report the read-only result the copy does not
  return it: no copy is refused on account of its source.
\<close>

theorem copy_entire_file_policy:
  "(is_read_only dst \<longrightarrow>
      copy_entire_file_native e fs dst src False s = (Result_FsReadOnly, s)
      \<and> copy_entire_file_stdio e dst src False s = (Result_FsReadOnly, s))
   \<and> (ign \<or> \<not> is_read_only dst \<longrightarrow>
        copy_entire_file_native e fs dst src ign s =
          (case read_entire_file_native e fs src s of
             (rc, data, s1) \<Rightarrow>
               if R_FAILED rc then (rc, s1)
               else write_entire_file_native e fs dst data ign s1)
        \<and> copy_entire_file_stdio e dst src ign s =
          (case read_entire_file_stdio e src s of
             (rc, data, s1) \<Rightarrow>
               if R_FAILED rc then (rc, s1)
               else write_entire_file_stdio e dst data ign s1))
   \<and> (never_read_only e \<and> (ign \<or> \<not> is_read_only dst) \<longrightarrow>
        fst (copy_entire_file_native e fs dst src ign s) \<noteq> Result_FsReadOnly
        \<and> fst (copy_entire_file_stdio e dst src ign s) \<noteq> Result_FsReadOnly)"
proof -
  have a: "is_read_only dst \<longrightarrow>
      copy_entire_file_native e fs dst src False s = (Result_FsReadOnly, s)
      \<and> copy_entire_file_stdio e dst src False s = (Result_FsReadOnly, s)"
    by (simp add: copy_entire_file_native_def copy_entire_file_stdio_def)
  have b: "ign \<or> \<not> is_read_only dst \<longrightarrow>
        copy_entire_file_native e fs dst src ign s =
          (case read_entire_file_native e fs src s of
             (rc, data, s1) \<Rightarrow>
               if R_FAILED rc then (rc, s1)
               else write_entire_file_native e fs dst data ign s1)
        \<and> copy_entire_file_stdio e dst src ign s =
          (case read_entire_file_stdio e src s of
             (rc, data, s1) \<Rightarrow>
               if R_FAILED rc then (rc, s1)
               else write_entire_file_stdio e dst data ign s1)"
    by (auto simp: copy_entire_file_native_def copy_entire_file_stdio_def)
  have c: "never_read_only e \<and> (ign \<or> \<not> is_read_only dst) \<longrightarrow>
        fst (copy_entire_file_native e fs dst src ign s) \<noteq> Result_FsReadOnly
        \<and> fst (copy_entire_file_stdio e dst src ign s) \<noteq> Result_FsReadOnly"
  proof
    assume h: "never_read_only e \<and> (ign \<or> \<not> is_read_only dst)"
    then have n: "never_read_only e" and g: "ign \<or> \<not> is_read_only dst" by simp_all
    obtain rc d s1 where r: "read_entire_file_native e fs src s = (rc, d, s1)"
      by (metis prod_cases3)
    have r1: "rc \<noteq> Result_FsReadOnly"
      using read_entire_file_native_not_ro [OF n, of fs src s] unfolding r by simp
    have n1: "fst (copy_entire_file_native e fs dst src ign s) \<noteq> Result_FsReadOnly"
      using g r r1 write_entire_file_native_not_ro [OF n g, of fs d s1]
      by (auto simp: copy_entire_file_native_def)
    obtain rc' d' s1' where r': "read_entire_file_stdio e src s = (rc', d', s1')"
      by (metis prod_cases3)
    have r1': "rc' \<noteq> Result_FsReadOnly"
      using read_entire_file_stdio_not_ro [OF n, of src s] unfolding r' by simp
    have n2: "fst (copy_entire_file_stdio e dst src ign s) \<noteq> Result_FsReadOnly"
      using g r' r1' write_entire_file_stdio_not_ro [OF n g, of d' s1']
      by (auto simp: copy_entire_file_stdio_def)
    from n1 n2 show "fst (copy_entire_file_native e fs dst src ign s) \<noteq> Result_FsReadOnly
        \<and> fst (copy_entire_file_stdio e dst src ign s) \<noteq> Result_FsReadOnly" by simp
  qed
  show ?thesis by (intro conjI a b c)
qed

text \<open>
  A copy from a protected source to a free destination, and a copy onto a protected
  destination, in an environment where every call succeeds.
\<close>

lemma never_read_only_ok_env: "never_read_only (ok_env :: 'w env)"
  by (simp add: never_read_only_def ok_env_def ok_nx_def ok_px_def)

lemma ex_keys: "is_read_only ''/switch/prod.keys''" "\<not> is_read_only ''/x''"
  by (simp_all add: is_read_only_def is_read_only_root_def is_read_only_file_def
      READONLY_ROOT_FOLDERS_def READONLY_FILES_def)

theorem copy_entire_file_policy_witness:
  "is_read_only ''/switch/prod.keys'' \<and> \<not> is_read_only ''/x''
   \<and> never_read_only (ok_env :: nat env)
   \<and> copy_entire_file_stdio ok_env ''/x'' ''/switch/prod.keys'' False (0 :: nat) = (Success, 0)
   \<and> fst (copy_entire_file_native ok_env 1 ''/x'' ''/switch/prod.keys'' False (0 :: nat))
        \<noteq> Result_FsReadOnly
   \<and> copy_entire_file_native ok_env 1 ''/switch/prod.keys'' ''/x'' False (0 :: nat)
        = (Result_FsReadOnly, 0)
   \<and> copy_entire_file_stdio ok_env ''/switch/prod.keys'' ''/x'' False (0 :: nat)
        = (Result_FsReadOnly, 0)"
proof -
  have r: "read_entire_file_stdio ok_env ''/switch/prod.keys'' (0 :: nat) = (Success, [], 0)"
    by (simp add: read_entire_file_stdio_def ok_env_def ok_io_def store_at_start_def)
  have w: "write_entire_file_stdio ok_env ''/x'' [] False (0 :: nat) = (Success, 0)"
    by (simp add: write_entire_file_stdio_def ok_env_def ok_io_def ex_keys)
  note t1 = copy_entire_file_policy [where e = "ok_env :: nat env" and fs = 1 and s = 0
      and dst = "''/x''" and src = "''/switch/prod.keys''" and ign = False]
  note t2 = copy_entire_file_policy [where e = "ok_env :: nat env" and fs = 1 and s = 0
      and dst = "''/switch/prod.keys''" and src = "''/x''" and ign = False]
  have n: "fst (copy_entire_file_native ok_env 1 ''/x'' ''/switch/prod.keys'' False (0 :: nat))
        \<noteq> Result_FsReadOnly"
    using t1 ex_keys never_read_only_ok_env [where 'w = nat] by blast
  have c: "copy_entire_file_stdio ok_env ''/x'' ''/switch/prod.keys'' False (0 :: nat)
        = (Success, 0)"
    using t1 [THEN conjunct2, THEN conjunct1] ex_keys by (simp add: r w R_FAILED_def)
  have g: "copy_entire_file_native ok_env 1 ''/switch/prod.keys'' ''/x'' False (0 :: nat)
        = (Result_FsReadOnly, 0)"
    "copy_entire_file_stdio ok_env ''/switch/prod.keys'' ''/x'' False (0 :: nat)
        = (Result_FsReadOnly, 0)"
    using t2 [THEN conjunct1] ex_keys by simp_all
  show ?thesis
    by (intro conjI ex_keys never_read_only_ok_env n c g)
qed

subsection \<open>Recursive directory creation\<close>

lemma loop_never_exists:
  "CreateDirectoryRecursively_loop e fs ign dirs path s = Some (rc, s') \<Longrightarrow>
   rc \<noteq> FsError_PathAlreadyExists"
proof (induction dirs arbitrary: path s)
  case Nil
  then show ?case by simp
next
  case (Cons dir dirs)
  show ?case
  proof (cases "dir = []")
    case True
    then show ?thesis using Cons by simp
  next
    case False
    then show ?thesis using Cons.prems Cons.IH
      by (auto simp: strcat_buf_def R_FAILED_def split: if_splits prod.splits)
  qed
qed

lemma CreateDirectoryRecursively_first_try:
  assumes "ign \<or> \<not> is_read_only_root p" "CreateDirectory_on e fs p ign s = (rc, s1)"
    and "rc = Success \<or> rc = FsError_PathAlreadyExists"
  shows "CreateDirectoryRecursively_native e fs p ign s = Some (Success, s1)"
  using assms by (auto simp: CreateDirectoryRecursively_native_def R_SUCCEEDED_def)

lemma CreateDirectoryRecursively_never_exists:
  "CreateDirectoryRecursively_native e fs p ign s = Some (rc, s') \<Longrightarrow>
   rc \<noteq> FsError_PathAlreadyExists"
  using loop_never_exists [of e fs ign]
  by (auto simp: CreateDirectoryRecursively_native_def split: if_splits prod.splits)

text \<open>
  The root marker of a path with a colon is the path up to the colon and a separator, cut
  to the buffer; the pieces are those of what follows the colon.
\<close>

lemma root_marker_device:
  "strchr p CHR '':'' = Some i \<Longrightarrow>
   root_marker p = (take (FS_MAX_PATH - 1) (take (i + 1) p @ ''/''), drop (i + 1) p)"
  by (simp add: root_marker_def snprintf_s_def)

lemma root_marker_sdmc: "root_marker ''sdmc:/a/b'' = (''sdmc:/'', ''/a/b'')"
  by (simp add: root_marker_def snprintf_s_def FS_MAX_PATH_def)

text \<open>
  While the buffer has room for every piece and its separator, the loop is the walk of the
  specification over the paths it builds; a path of fewer than \<open>FS_MAX_PATH - 2\<close> characters
  leaves that room.
\<close>

lemma strchr_None: "c \<notin> set p \<Longrightarrow> strchr p c = None"
  by (induction p) auto

lemma strchr_first: "c \<notin> set u \<Longrightarrow> strchr (u @ c # v) c = Some (length u)"
  by (induction u) auto

lemma strchr_lt: "strchr p c = Some i \<Longrightarrow> i < length p"
  by (induction p arbitrary: i) (auto split: if_splits)

lemma split_view_piece: "c \<notin> set u \<Longrightarrow> split_view c (u @ c # xs) = u # split_view c xs"
  by (induction u) auto

lemma split_view_last: "c \<notin> set u \<Longrightarrow> split_view c u = [u]"
  by (induction u) auto

lemma split_view_nonempty: "split_view c str \<noteq> []"
  by (induction str) (auto split: list.splits)

lemma room_split_hd:
  "pieces_room (split_view c str)
     \<le> length str + (if hd (split_view c str) = [] then 0 else 1)"
proof (induction str)
  case Nil
  then show ?case by simp
next
  case (Cons x xs)
  obtain y ys where sp: "split_view c xs = y # ys"
    using split_view_nonempty [of c xs] by (cases "split_view c xs") auto
  show ?case using Cons sp by (auto split: if_splits)
qed

lemma room_split: "pieces_room (split_view c str) \<le> length str + 1"
  using room_split_hd [of c str] by (simp split: if_splits)

lemma loop_fits:
  "length path + pieces_room dirs < FS_MAX_PATH \<Longrightarrow>
   CreateDirectoryRecursively_loop e fs ign dirs path s =
     Some (walk_segments e fs ign (loop_paths dirs path) s)"
proof (induction dirs arbitrary: path s)
  case Nil
  then show ?case by simp
next
  case (Cons dir dirs)
  show ?case
  proof (cases "dir = []")
    case True
    then show ?thesis using Cons by simp
  next
    case False
    obtain rc s1 where c: "CreateDirectory_on e fs (path @ dir) ign s = (rc, s1)"
      by (cases "CreateDirectory_on e fs (path @ dir) ign s")
    have room: "length (path @ dir @ ''/'') + pieces_room dirs < FS_MAX_PATH"
      using Cons.prems False by simp
    have fit: "strcat_buf FS_MAX_PATH path dir = Some (path @ dir)"
      "strcat_buf FS_MAX_PATH (path @ dir) ''/'' = Some (path @ dir @ ''/'')"
      using room by (simp_all add: strcat_buf_def)
    show ?thesis
      using False c fit Cons.IH [OF room, of s1] by simp
  qed
qed

lemma root_marker_room:
  "length (fst (root_marker p)) + pieces_room (split_view c (snd (root_marker p)))
     \<le> length p + 2"
proof (cases "strchr p CHR '':''")
  case None
  then show ?thesis using room_split [of c p] by (simp add: root_marker_def)
next
  case (Some i)
  have "i < length p" using strchr_lt [OF Some] .
  then show ?thesis
    using Some room_split [of c "drop (Suc i) p"]
    by (simp add: root_marker_def snprintf_s_def Let_def)
qed

lemma CreateDirectoryRecursively_fits:
  assumes "length p + 2 < FS_MAX_PATH" "ign \<or> \<not> is_read_only_root p"
    and "CreateDirectory_on e fs p ign s = (rc, s1)"
    and "rc \<noteq> Success" "rc \<noteq> FsError_PathAlreadyExists"
  shows "CreateDirectoryRecursively_native e fs p ign s =
     Some (walk_segments e fs ign
       (loop_paths (split_view CHR ''/'' (snd (root_marker p))) (fst (root_marker p))) s1)"
proof -
  have "length (fst (root_marker p))
      + pieces_room (split_view CHR ''/'' (snd (root_marker p))) < FS_MAX_PATH"
    using root_marker_room [of p "CHR ''/''"] assms(1) by simp
  from loop_fits [OF this, of e fs ign s1] show ?thesis
    using assms(2-5)
    by (auto simp: CreateDirectoryRecursively_native_def R_SUCCEEDED_def split: prod.splits)
qed

text \<open>
  Runs on the small file tree: \<^verbatim>\<open>/a/b/c\<close> on an empty root creates \<^verbatim>\<open>/a\<close>, \<^verbatim>\<open>/a/b\<close> and
  \<^verbatim>\<open>/a/b/c\<close>; a second call succeeds and leaves the tree as it is; under a regular file
  \<^verbatim>\<open>/f\<close> the walk tolerates \<^verbatim>\<open>/f\<close> and stops at \<^verbatim>\<open>/f/d\<close> with the error of \<^verbatim>\<open>mkdir\<close>.
\<close>

lemma ex_abc: "\<not> is_read_only_root ''/a/b/c''" "\<not> is_read_only_root ''/a''"
  "\<not> is_read_only_root ''/a/b''" "\<not> is_read_only_root ''/f''" "\<not> is_read_only_root ''/f/d''"
  by (simp_all add: is_read_only_root_def READONLY_ROOT_FOLDERS_def)

lemma tree_px: "c_mkdir (px tree_env) = tree_mkdir" "c_errno (px tree_env) = t_errno"
  "c_open (px tree_env) = tree_open"
  "fsdevGetLastResult (px tree_env) = (\<lambda>s. Result_Other (nat (t_errno s)))"
  "c_close (px tree_env) = (\<lambda>fd s. s)" "c_ftruncate (px tree_env) = (\<lambda>fd sz s. (0, s))"
  by (simp_all add: tree_env_def ok_px_def)

lemma ex_parent: "parent_dir ''/a/b/c'' = ''/a/b''" "parent_dir ''/a/b'' = ''/a''"
  "parent_dir ''/a'' = []" "parent_dir ''/f/d'' = ''/f''" "parent_dir ''/f'' = []"
  by (simp_all add: parent_dir_def strrchr_def)

lemma run1: "CreateDirectoryRecursively_native tree_env 0 ''/a/b/c'' False
      \<lparr>t_dirs = [], t_files = [], t_errno = 0\<rparr>
    = Some (Success, \<lparr>t_dirs = [''/a'', ''/a/b'', ''/a/b/c''], t_files = [], t_errno = ENOENT\<rparr>)"
  by (simp add: CreateDirectoryRecursively_native_def CreateDirectory_on_def
      CreateDirectory_stdio_def ex_abc tree_px tree_mkdir_def parent_exists_def ex_parent
      stdio_failure_def R_FAILED_def R_SUCCEEDED_def root_marker_def strcat_buf_def
      FS_MAX_PATH_def ENOENT_def EEXIST_def ACCESSPERMS_def Let_def)


lemma run2_first:
  "CreateDirectory_on tree_env 0 ''/a/b/c'' False
      \<lparr>t_dirs = [''/a'', ''/a/b'', ''/a/b/c''], t_files = [], t_errno = ENOENT\<rparr>
    = (FsError_PathAlreadyExists,
       \<lparr>t_dirs = [''/a'', ''/a/b'', ''/a/b/c''], t_files = [], t_errno = EEXIST\<rparr>)"
  by (simp add: CreateDirectory_on_def CreateDirectory_stdio_def ex_abc tree_px tree_mkdir_def)

lemma run3_first:
  "CreateDirectory_on tree_env 0 ''/f/d'' False \<lparr>t_dirs = [], t_files = [''/f''], t_errno = 0\<rparr>
    = (Result_Other 2, \<lparr>t_dirs = [], t_files = [''/f''], t_errno = ENOENT\<rparr>)"
  by (simp add: CreateDirectory_on_def CreateDirectory_stdio_def ex_abc tree_px tree_mkdir_def
      parent_exists_def ex_parent stdio_failure_def R_FAILED_def ENOENT_def EEXIST_def)

lemma run3_loop:
  "CreateDirectoryRecursively_loop tree_env 0 False (split_view CHR ''/'' ''/f/d'') ''/''
      \<lparr>t_dirs = [], t_files = [''/f''], t_errno = ENOENT\<rparr>
    = Some (Result_Other 2, \<lparr>t_dirs = [], t_files = [''/f''], t_errno = ENOENT\<rparr>)"
  by (simp add: CreateDirectory_on_def CreateDirectory_stdio_def ex_abc tree_px tree_mkdir_def
      parent_exists_def ex_parent stdio_failure_def R_FAILED_def ENOENT_def EEXIST_def
      strcat_buf_def FS_MAX_PATH_def)

lemma run2:
  "CreateDirectoryRecursively_native tree_env 0 ''/a/b/c'' False
      \<lparr>t_dirs = [''/a'', ''/a/b'', ''/a/b/c''], t_files = [], t_errno = ENOENT\<rparr>
    = Some (Success, \<lparr>t_dirs = [''/a'', ''/a/b'', ''/a/b/c''], t_files = [], t_errno = EEXIST\<rparr>)"
  using CreateDirectoryRecursively_first_try [OF _ run2_first] ex_abc by simp

lemma run3:
  "CreateDirectoryRecursively_native tree_env 0 ''/f/d'' False
      \<lparr>t_dirs = [], t_files = [''/f''], t_errno = 0\<rparr>
    = Some (Result_Other 2, \<lparr>t_dirs = [], t_files = [''/f''], t_errno = ENOENT\<rparr>)"
  using run3_first run3_loop ex_abc
  by (simp add: CreateDirectoryRecursively_native_def R_SUCCEEDED_def root_marker_def)

text \<open>The run on the path of three long names, on an empty root.\<close>

lemma parent_dir_last: "CHR ''/'' \<notin> set v \<Longrightarrow> parent_dir (u @ CHR ''/'' # v) = u"
  using strchr_first [of "CHR ''/''" "rev v" "rev u"]
  by (simp add: parent_dir_def strrchr_def)

lemma ro_x: "\<not> is_read_only_root (CHR ''/'' # CHR ''x'' # rest)"
  by (simp add: is_read_only_root_def READONLY_ROOT_FOLDERS_def)

lemma rep255: "replicate 255 c = c # replicate 254 c"
  by (simp add: numeral_eq_Suc)

lemma deep_length: "length (deep_path n) = 513 + n"
  by (simp add: deep_path_def)

lemma deep_marker: "root_marker (deep_path n) = (''/'', deep_path n)"
  by (simp add: root_marker_def deep_path_def strchr_None)

lemma deep_split:
  "split_view CHR ''/'' (deep_path n) =
     [[], replicate 255 CHR ''x'', replicate 255 CHR ''y'', replicate n CHR ''z'']"
  by (simp add: deep_path_def split_view_piece split_view_last)

lemma tree_create:
  "\<not> is_read_only_root p \<Longrightarrow>
   CreateDirectory_on tree_env 0 p False s =
     (if p \<in> set (t_dirs s) \<or> p \<in> set (t_files s)
        then (FsError_PathAlreadyExists, s\<lparr>t_errno := EEXIST\<rparr>)
      else if \<not> parent_exists s p then (Result_Other 2, s\<lparr>t_errno := ENOENT\<rparr>)
      else (Success, s\<lparr>t_dirs := t_dirs s @ [p]\<rparr>))"
  by (simp add: CreateDirectory_on_def CreateDirectory_stdio_def tree_px tree_mkdir_def
      stdio_failure_def R_FAILED_def ENOENT_def EEXIST_def)

lemma deep_run:
  assumes n: "0 < n"
  shows "CreateDirectoryRecursively_native tree_env 0 (deep_path n) False
      \<lparr>t_dirs = [], t_files = [], t_errno = 0\<rparr>
    = (if n < 255
       then Some (Success,
         \<lparr>t_dirs = [CHR ''/'' # replicate 255 CHR ''x'',
                    CHR ''/'' # replicate 255 CHR ''x'' @ CHR ''/'' # replicate 255 CHR ''y'',
                    deep_path n],
          t_files = [], t_errno = ENOENT\<rparr>)
       else None)"
proof -
  define X where "X = replicate 254 CHR ''x''"
  define Y where "Y = replicate 255 CHR ''y''"
  define Z where "Z = replicate n CHR ''z''"
  have dp: "deep_path n = CHR ''/'' # CHR ''x'' # X @ CHR ''/'' # Y @ CHR ''/'' # Z"
    by (simp add: deep_path_def X_def Y_def Z_def rep255)
  have len: "length X = 254" "length Y = 255" "length Z = n"
    by (simp_all add: X_def Y_def Z_def)
  have ns: "CHR ''/'' \<notin> set X" "CHR ''/'' \<notin> set Y" "CHR ''/'' \<notin> set Z"
    by (simp_all add: X_def Y_def Z_def)
  have Zne: "Z \<noteq> []" using n by (simp add: Z_def)
  have Yne: "Y \<noteq> []" by (simp add: Y_def)
  have sp: "split_view CHR ''/'' (deep_path n) = [[], CHR ''x'' # X, Y, Z]"
    unfolding deep_split by (simp add: X_def Y_def Z_def rep255)
  have pd: "parent_dir (CHR ''/'' # CHR ''x'' # X) = []"
    "parent_dir (CHR ''/'' # CHR ''x'' # X @ CHR ''/'' # Y) = CHR ''/'' # CHR ''x'' # X"
    "parent_dir (CHR ''/'' # CHR ''x'' # X @ CHR ''/'' # Y @ CHR ''/'' # Z)
       = CHR ''/'' # CHR ''x'' # X @ CHR ''/'' # Y"
    using parent_dir_last [of "CHR ''x'' # X" "[]"] parent_dir_last [of Y "CHR ''/'' # CHR ''x'' # X"]
      parent_dir_last [of Z "CHR ''/'' # CHR ''x'' # X @ CHR ''/'' # Y"] ns
    by simp_all
  have ro: "\<not> is_read_only_root (deep_path n)"
    unfolding dp by (rule ro_x)
  have first: "CreateDirectory_on tree_env 0 (deep_path n) False
      \<lparr>t_dirs = [], t_files = [], t_errno = 0\<rparr>
    = (Result_Other 2, \<lparr>t_dirs = [], t_files = [], t_errno = ENOENT\<rparr>)"
    unfolding tree_create [OF ro] unfolding dp
    by (simp add: parent_exists_def pd)
  have walk: "CreateDirectoryRecursively_native tree_env 0 (deep_path n) False
      \<lparr>t_dirs = [], t_files = [], t_errno = 0\<rparr>
    = CreateDirectoryRecursively_loop tree_env 0 False [[], CHR ''x'' # X, Y, Z] ''/''
        \<lparr>t_dirs = [], t_files = [], t_errno = ENOENT\<rparr>"
    by (simp add: CreateDirectoryRecursively_native_def ro first deep_marker sp
        R_SUCCEEDED_def)
  have rx: "replicate 255 CHR ''x'' = CHR ''x'' # X"
    by (simp add: X_def rep255)
  show ?thesis
    unfolding walk
    using Zne Yne n
    by (simp add: tree_create ro_x parent_exists_def pd strcat_buf_def FS_MAX_PATH_def len
        R_FAILED_def dp rx Y_def [symmetric])
qed

text \<open>
  Claim C6 asks that the walk create each segment, move on after success or "already
  exists", and return the error of any other failure. The loop builds the path in a buffer
  of \<open>FS_MAX_PATH\<close> bytes with \<^verbatim>\<open>strncat\<close> and \<^verbatim>\<open>strcat\<close>, which do not look at the room left
  (the root marker, two lines above, is written with \<^verbatim>\<open>snprintf\<close> and the size of the
  buffer): after each segment created it appends a separator, also after the last one. On
  an empty root, for the path of 768 characters \<^verbatim>\<open>/x..x/y..y/z..z\<close> (three names of 255
  characters), the first try fails because the parent is missing, the walk creates the
  three directories, and the separator appended after the last one is written past the end
  of the buffer: the call has no defined result. With one character less the call succeeds
  and the tree holds the three directories.
\<close>

theorem CreateDirectoryRecursively_long_path:
  "length (deep_path 255) = 768 \<and> length (deep_path 255) < FS_MAX_PATH
   \<and> CreateDirectoryRecursively_native tree_env 0 (deep_path 255) False
        \<lparr>t_dirs = [], t_files = [], t_errno = 0\<rparr> = None
   \<and> CreateDirectoryRecursively_native tree_env 0 (deep_path 254) False
        \<lparr>t_dirs = [], t_files = [], t_errno = 0\<rparr>
      = Some (Success,
         \<lparr>t_dirs = [CHR ''/'' # replicate 255 CHR ''x'',
                    CHR ''/'' # replicate 255 CHR ''x'' @ CHR ''/'' # replicate 255 CHR ''y'',
                    deep_path 254],
          t_files = [], t_errno = ENOENT\<rparr>)"
  using deep_run [of 255] deep_run [of 254]
  by (simp add: deep_length FS_MAX_PATH_def)

subsection \<open>CreateFile on a file that exists\<close>

text \<open>
  Claim C4 asks for the "already exists" result when a file exists at the path. The POSIX
  function opens the path with \<^verbatim>\<open>O_WRONLY | O_CREAT\<close>, without \<^verbatim>\<open>O_EXCL\<close>: on a file
  that exists \<^verbatim>\<open>open\<close> succeeds, so the function returns success (after resizing the
  file when a size is given) and its \<^verbatim>\<open>EEXIST\<close> branch is not reached.
\<close>

theorem CreateFile_stdio_existing_file:
  "CreateFile_stdio tree_env ''/f'' 0 0 False \<lparr>t_dirs = [], t_files = [''/f''], t_errno = 0\<rparr>
     = (Success, \<lparr>t_dirs = [], t_files = [''/f''], t_errno = 0\<rparr>)
   \<and> CreateFile_stdio tree_env ''/f'' 5 0 False \<lparr>t_dirs = [], t_files = [''/f''], t_errno = 0\<rparr>
     = (Success, \<lparr>t_dirs = [], t_files = [''/f''], t_errno = 0\<rparr>)
   \<and> and (or O_WRONLY O_CREAT) O_EXCL = 0"
  by (simp add: CreateFile_stdio_def ex_abc tree_px tree_open_def O_WRONLY_def O_CREAT_def
      O_EXCL_def)

end
